theory Spec2Isabelle
  imports Complex_Main "HOL-Library.Log_Nat"
begin

section \<open>JavaScript values used by the sync script\<close>

text \<open>
  The sync script (\<^verbatim>\<open>scripts/sync-github-data.js\<close>) works on loosely typed JSON
  objects. A property that may be missing, \<^verbatim>\<open>null\<close> or \<^verbatim>\<open>undefined\<close> is an
  \<open>option\<close>; \<open>None\<close> stands for all three. A string is falsy when it is missing or
  empty, and \<^verbatim>\<open>a || b\<close> yields \<^verbatim>\<open>a\<close> when it is truthy and \<^verbatim>\<open>b\<close> otherwise.
\<close>

fun truthy :: "string option \<Rightarrow> bool" where
  "truthy None = False"
| "truthy (Some s) = (s \<noteq> [])"

definition orOpt :: "string option \<Rightarrow> string option \<Rightarrow> string option" where
  "orOpt a b = (if truthy a then a else b)"

definition orStr :: "string option \<Rightarrow> string \<Rightarrow> string" where
  "orStr a d = (case a of None \<Rightarrow> d | Some s \<Rightarrow> if s = [] then d else s)"

text \<open>
  Timestamps are the millisecond values of \<^verbatim>\<open>new Date(...)\<close>; a timestamp property is
  truthy exactly when it is present, so \<^verbatim>\<open>a || b\<close> on two of them is the first one
  present. A date string that does not parse (\<^verbatim>\<open>NaN\<close>) is outside this model.
\<close>

definition orDate :: "int option \<Rightarrow> int option \<Rightarrow> int option" where
  "orDate a b = (case a of None \<Rightarrow> b | Some t \<Rightarrow> Some t)"

text \<open>\<^verbatim>\<open>String.prototype.toLowerCase\<close> on the ASCII letters.\<close>

definition lowerChar :: "char \<Rightarrow> char" where
  "lowerChar c = (if 65 \<le> (of_char c :: nat) \<and> (of_char c :: nat) \<le> 90
                  then char_of ((of_char c :: nat) + 32) else c)"

definition toLowerCase :: "string \<Rightarrow> string" where
  "toLowerCase s = map lowerChar s"

text \<open>
  \<^verbatim>\<open>Math.floor((b - a) / (1000 * 60 * 60 * 24))\<close> on two timestamps, and
  \<^verbatim>\<open>Math.round(t / n)\<close> on an integer sum and a positive count: the quotient rounded to
  the nearest integer, a half rounded up. Both are taken on the exact quotient; the
  double quotient of the script lies on the same side of every integer and of every
  half as long as the numbers are those of real timestamps and alert counts.
\<close>

definition daysBetween :: "int \<Rightarrow> int \<Rightarrow> int" where
  "daysBetween a b = (b - a) div (1000 * 60 * 60 * 24)"

definition roundDiv :: "int \<Rightarrow> nat \<Rightarrow> int" where
  "roundDiv t n = (2 * t + int n) div (2 * int n)"


text \<open>
  A JavaScript \<^verbatim>\<open>Map\<close> with string keys, and a plain object filled by assignments:
  \<^verbatim>\<open>set\<close> replaces the value of a key that is there and keeps its place, or appends a
  new entry; \<^verbatim>\<open>values()\<close> goes in that order.
\<close>

fun mapSet :: "string \<Rightarrow> 'v \<Rightarrow> (string \<times> 'v) list \<Rightarrow> (string \<times> 'v) list" where
  "mapSet k v [] = [(k, v)]"
| "mapSet k v ((k', v') # m) = (if k' = k then (k, v) # m else (k', v') # mapSet k v m)"

definition mapGet :: "(string \<times> 'v) list \<Rightarrow> string \<Rightarrow> 'v option" where
  "mapGet m k = map_of m k"


section \<open>Alerts and alert summaries\<close>

text \<open>
  One alert object of any of the three list endpoints; each fetcher reads the
  properties of its own kind and finds the others missing.
\<close>

record alert =
  state :: string
  created_at :: "int option"
  updated_at :: "string option"
  closed_at :: "int option"
  dismissed_at :: "int option"
  fixed_at :: "int option"
  resolved_at :: "int option"
  security_severity_level :: "string option"
  rule_severity :: "string option"
  advisory_severity :: "string option"
  ecosystem :: "string option"
  secret_type :: "string option"

text \<open>The object \<^verbatim>\<open>{ critical: 0, high: 0, medium: 0, low: 0, info: 0 }\<close>.\<close>

record by_severity =
  sev_critical :: nat
  sev_high :: nat
  sev_medium :: nat
  sev_low :: nat
  sev_info :: nat

text \<open>The object \<^verbatim>\<open>{ '0-7': 0, '8-30': 0, '31-90': 0, '91-180': 0, '180+': 0 }\<close>.\<close>

record age_buckets =
  b0_7 :: nat
  b8_30 :: nat
  b31_90 :: nat
  b91_180 :: nat
  b180_plus :: nat

record aging_info =
  oldestAge :: int
  averageAge :: int
  ageBuckets :: age_buckets

text \<open>
  A summary object. The three kinds build object literals with different keys, so a key
  that some literal leaves out is an \<open>option\<close>: \<open>critical\<close>, \<open>high\<close>, \<open>medium\<close> and
  \<open>low\<close> are missing from secret-scanning summaries, \<open>ecosystems\<close> belongs to Dependabot
  and \<open>secretTypes\<close> to secret scanning, \<open>aging\<close> and \<open>mttr\<close> are missing from the
  default summaries of \<^verbatim>\<open>mergeWithOwnership\<close>. No literal of the script has a key
  \<open>info\<close>: the dashboard reads it as \<^verbatim>\<open>codeScanning.info || 0\<close>.
\<close>

record summary =
  total_n :: nat
  critical :: "nat option"
  high :: "nat option"
  medium :: "nat option"
  low :: "nat option"
  info :: "nat option"
  ecosystems :: "string list option"
  secretTypes :: "(string \<times> nat) list option"
  openedLast30Days :: nat
  closedLast30Days :: nat
  openedLast30DaysBySeverity :: by_severity
  closedLast30DaysBySeverity :: by_severity
  aging :: "aging_info option"
  mttr :: "int option"
  lastUpdated :: "string option"
  enabled :: bool

definition zeroBySeverity :: by_severity where
  "zeroBySeverity = \<lparr>sev_critical = 0, sev_high = 0, sev_medium = 0, sev_low = 0, sev_info = 0\<rparr>"

definition zeroBuckets :: age_buckets where
  "zeroBuckets = \<lparr>b0_7 = 0, b8_30 = 0, b31_90 = 0, b91_180 = 0, b180_plus = 0\<rparr>"

definition zeroAging :: aging_info where
  "zeroAging = \<lparr>oldestAge = 0, averageAge = 0, ageBuckets = zeroBuckets\<rparr>"


section \<open>The paginated alert fetcher\<close>

text \<open>
  What \<^verbatim>\<open>githubRequest\<close> gives for one page of an alert list: it resolves with a JSON
  array, resolves with something that is not an array, or rejects with an error whose
  \<^verbatim>\<open>statusCode\<close> is the HTTP status (no status for a network error).
\<close>

datatype response = Page "alert list" | NotArray | Rejected "nat option"

text \<open>
  One run of a fetcher sees an endpoint (state and page number to response) and reads
  the clock twice: \<^verbatim>\<open>thirtyDaysAgo\<close> before the requests, \<^verbatim>\<open>now\<close> after them.
\<close>

record alert_world =
  endpoint :: "string \<Rightarrow> nat \<Rightarrow> response"
  thirtyDaysAgo :: int
  now :: int

text \<open>
  The \<^verbatim>\<open>while (hasMore)\<close> loop for one state. It goes on while pages are full (100
  alerts), so it need not return: \<open>None\<close> is the run that never ends. A 403 or 404 ends
  the loop for this state and keeps what was collected; any other error is thrown
  (\<open>Inl\<close>).
\<close>

partial_function (option) fetchPages ::
  "(nat \<Rightarrow> response) \<Rightarrow> nat \<Rightarrow> alert list \<Rightarrow> (nat option + alert list) option" where
  "fetchPages request page alerts =
     (case request page of
        Page r \<Rightarrow>
          if length r = 100 then fetchPages request (page + 1) (alerts @ r)
          else Some (Inr (alerts @ r))
      | NotArray \<Rightarrow> Some (Inr alerts)
      | Rejected code \<Rightarrow>
          if code = Some 404 \<or> code = Some 403 then Some (Inr alerts)
          else Some (Inl code))"

text \<open>The \<^verbatim>\<open>for (const state of states)\<close> loop; each state starts at page 1.\<close>

fun fetchStates ::
  "(string \<Rightarrow> nat \<Rightarrow> response) \<Rightarrow> string list \<Rightarrow> alert list \<Rightarrow> (nat option + alert list) option" where
  "fetchStates api [] alerts = Some (Inr alerts)"
| "fetchStates api (s # ss) alerts =
     (case fetchPages (api s) 1 alerts of
        None \<Rightarrow> None
      | Some (Inl code) \<Rightarrow> Some (Inl code)
      | Some (Inr alerts') \<Rightarrow> fetchStates api ss alerts')"


section \<open>The alert summarizer\<close>

definition severityKey :: "string \<Rightarrow> string" where
  "severityKey severity =
     (if severity \<in> set [''critical'', ''high'', ''medium'', ''low'', ''info'']
      then severity else ''medium'')"

text \<open>\<^verbatim>\<open>counts[key]++\<close> on a by-severity object, for a key that \<open>severityKey\<close> returned.\<close>

definition bumpSeverity :: "string \<Rightarrow> by_severity \<Rightarrow> by_severity" where
  "bumpSeverity k c =
     (if k = ''critical'' then c\<lparr>sev_critical := sev_critical c + 1\<rparr>
      else if k = ''high'' then c\<lparr>sev_high := sev_high c + 1\<rparr>
      else if k = ''medium'' then c\<lparr>sev_medium := sev_medium c + 1\<rparr>
      else if k = ''low'' then c\<lparr>sev_low := sev_low c + 1\<rparr>
      else if k = ''info'' then c\<lparr>sev_info := sev_info c + 1\<rparr>
      else c)"

text \<open>
  The first \<^verbatim>\<open>alerts.forEach\<close>: every alert, open or not, created on or after
  \<open>thirtyDaysAgo\<close> counts as opened, and one closed on or after it counts as closed,
  under its severity key. \<open>sev\<close> and \<open>closedDate\<close> are the expressions of the kind.
\<close>

definition deltaStep ::
  "(alert \<Rightarrow> string) \<Rightarrow> (alert \<Rightarrow> int option) \<Rightarrow> int \<Rightarrow> alert \<Rightarrow>
   by_severity \<times> by_severity \<Rightarrow> by_severity \<times> by_severity" where
  "deltaStep sev closedDate t30 a acc =
     (let k = severityKey (sev a);
          openedCount = (case created_at a of
                      None \<Rightarrow> fst acc
                    | Some created \<Rightarrow> if created \<ge> t30 then bumpSeverity k (fst acc) else fst acc);
          closedCount = (case closedDate a of
                      None \<Rightarrow> snd acc
                    | Some c \<Rightarrow> if c \<ge> t30 then bumpSeverity k (snd acc) else snd acc)
      in (openedCount, closedCount))"

definition deltas ::
  "(alert \<Rightarrow> string) \<Rightarrow> (alert \<Rightarrow> int option) \<Rightarrow> int \<Rightarrow> alert list \<Rightarrow> by_severity \<times> by_severity" where
  "deltas sev closedDate t30 alerts =
     fold (deltaStep sev closedDate t30) alerts (zeroBySeverity, zeroBySeverity)"

definition sumSeverity :: "by_severity \<Rightarrow> nat" where
  "sumSeverity c = sev_critical c + sev_high c + sev_medium c + sev_low c + sev_info c"

text \<open>The age bucket chain: \<^verbatim>\<open>if (ageDays <= 7) ... else if (ageDays <= 30) ...\<close>.\<close>

definition bumpBucket :: "int \<Rightarrow> age_buckets \<Rightarrow> age_buckets" where
  "bumpBucket ageDays b =
     (if ageDays \<le> 7 then b\<lparr>b0_7 := b0_7 b + 1\<rparr>
      else if ageDays \<le> 30 then b\<lparr>b8_30 := b8_30 b + 1\<rparr>
      else if ageDays \<le> 90 then b\<lparr>b31_90 := b31_90 b + 1\<rparr>
      else if ageDays \<le> 180 then b\<lparr>b91_180 := b91_180 b + 1\<rparr>
      else b\<lparr>b180_plus := b180_plus b + 1\<rparr>)"

text \<open>
  \<^verbatim>\<open>openAlerts.forEach\<close> of the aging block; the accumulator is
  \<open>(oldestAge, totalAge, ageBuckets)\<close>. An alert without \<open>created_at\<close> is passed over.
\<close>

definition agingStep :: "int \<Rightarrow> alert \<Rightarrow> int \<times> int \<times> age_buckets \<Rightarrow> int \<times> int \<times> age_buckets" where
  "agingStep nw a acc =
     (case created_at a of
        None \<Rightarrow> acc
      | Some created \<Rightarrow>
          (let ageDays = daysBetween created nw
           in (max (fst acc) ageDays, fst (snd acc) + ageDays, bumpBucket ageDays (snd (snd acc)))))"

definition agingOf :: "int \<Rightarrow> alert list \<Rightarrow> aging_info" where
  "agingOf nw openAlerts =
     (let acc = fold (agingStep nw) openAlerts (0, 0, zeroBuckets)
      in \<lparr>oldestAge = fst acc,
          averageAge = (if length openAlerts > 0 then roundDiv (fst (snd acc)) (length openAlerts) else 0),
          ageBuckets = snd (snd acc)\<rparr>)"

text \<open>
  \<^verbatim>\<open>closedAlerts.forEach\<close> of the MTTR block; the accumulator is
  \<open>(totalRemediationTime, remediationCount)\<close>. A negative remediation time is left out.
\<close>

definition mttrStep :: "(alert \<Rightarrow> int option) \<Rightarrow> alert \<Rightarrow> int \<times> nat \<Rightarrow> int \<times> nat" where
  "mttrStep closedDate a acc =
     (case created_at a of
        None \<Rightarrow> acc
      | Some created \<Rightarrow>
          (case closedDate a of
             None \<Rightarrow> acc
           | Some closedAt \<Rightarrow>
               (let daysToRemediate = daysBetween created closedAt
                in if daysToRemediate \<ge> 0 then (fst acc + daysToRemediate, snd acc + 1) else acc)))"

definition mttrOf :: "(alert \<Rightarrow> int option) \<Rightarrow> alert list \<Rightarrow> int" where
  "mttrOf closedDate closedAlerts =
     (let acc = fold (mttrStep closedDate) closedAlerts (0, 0)
      in if snd acc > 0 then roundDiv (fst acc) (snd acc) else 0)"

definition lastUpdatedOf :: "alert list \<Rightarrow> string option" where
  "lastUpdatedOf alerts = (case alerts of [] \<Rightarrow> None | a # _ \<Rightarrow> updated_at a)"

text \<open>
  The open-alert counts compare the lower-cased label with the bucket name; here the
  missing label is the empty string, which matches no bucket.
\<close>

definition countLabel :: "(alert \<Rightarrow> string option) \<Rightarrow> string \<Rightarrow> alert list \<Rightarrow> nat" where
  "countLabel label name openAlerts =
     length (filter (\<lambda>a. toLowerCase (orStr (label a) []) = name) openAlerts)"


subsection \<open>Code scanning\<close>

definition codeScanningLabel :: "alert \<Rightarrow> string option" where
  "codeScanningLabel a = orOpt (security_severity_level a) (rule_severity a)"

definition codeScanningSeverity :: "alert \<Rightarrow> string" where
  "codeScanningSeverity a = toLowerCase (orStr (codeScanningLabel a) ''medium'')"

definition codeScanningClosedDate :: "alert \<Rightarrow> int option" where
  "codeScanningClosedDate a = orDate (closed_at a) (dismissed_at a)"

text \<open>Everything of \<^verbatim>\<open>fetchCodeScanningAlerts\<close> after the requests.\<close>

definition codeScanningSummary :: "alert list \<Rightarrow> int \<Rightarrow> int \<Rightarrow> summary" where
  "codeScanningSummary alerts t30 nw =
     (let bySeverity = deltas codeScanningSeverity codeScanningClosedDate t30 alerts;
          openedBySeverity = fst bySeverity;
          closedBySeverity = snd bySeverity;
          openAlerts = filter (\<lambda>a. state a = ''open'') alerts;
          closedAlerts = filter (\<lambda>a. state a = ''closed'' \<or> state a = ''dismissed'') alerts
      in \<lparr>total_n = length openAlerts,
          critical = Some (countLabel codeScanningLabel ''critical'' openAlerts),
          high = Some (countLabel codeScanningLabel ''high'' openAlerts),
          medium = Some (countLabel codeScanningLabel ''medium'' openAlerts),
          low = Some (countLabel codeScanningLabel ''low'' openAlerts),
          info = None,
          ecosystems = None,
          secretTypes = None,
          openedLast30Days = sumSeverity openedBySeverity,
          closedLast30Days = sumSeverity closedBySeverity,
          openedLast30DaysBySeverity = openedBySeverity,
          closedLast30DaysBySeverity = closedBySeverity,
          aging = Some (agingOf nw openAlerts),
          mttr = Some (mttrOf codeScanningClosedDate closedAlerts),
          lastUpdated = lastUpdatedOf alerts,
          enabled = True\<rparr>)"

text \<open>
  The summary that the outer \<^verbatim>\<open>catch\<close> of \<^verbatim>\<open>fetchCodeScanningAlerts\<close> returns for a
  403 or 404, and that \<^verbatim>\<open>enrichRepository\<close> puts in when the fetcher throws.
\<close>

definition disabledCodeScanning :: summary where
  "disabledCodeScanning =
     \<lparr>total_n = 0, critical = Some 0, high = Some 0, medium = Some 0, low = Some 0,
      info = None, ecosystems = None, secretTypes = None,
      openedLast30Days = 0, closedLast30Days = 0,
      openedLast30DaysBySeverity = zeroBySeverity,
      closedLast30DaysBySeverity = zeroBySeverity,
      aging = Some zeroAging, mttr = Some 0, lastUpdated = None, enabled = False\<rparr>"

text \<open>
  \<^verbatim>\<open>fetchCodeScanningAlerts\<close>: the outer \<^verbatim>\<open>try\<close> holds the requests and the summary;
  its \<^verbatim>\<open>catch\<close> turns a 403 or 404 into the disabled summary and throws anything else
  again.
\<close>

definition fetchCodeScanningAlerts :: "alert_world \<Rightarrow> (nat option + summary) option" where
  "fetchCodeScanningAlerts w =
     (case fetchStates (endpoint w) [''open'', ''closed'', ''dismissed''] [] of
        None \<Rightarrow> None
      | Some (Inr alerts) \<Rightarrow> Some (Inr (codeScanningSummary alerts (thirtyDaysAgo w) (now w)))
      | Some (Inl code) \<Rightarrow>
          if code = Some 403 \<or> code = Some 404 then Some (Inr disabledCodeScanning)
          else Some (Inl code))"

subsection \<open>Dependabot\<close>

definition dependabotSeverity :: "alert \<Rightarrow> string" where
  "dependabotSeverity a = toLowerCase (orStr (advisory_severity a) ''medium'')"

definition dependabotClosedDate :: "alert \<Rightarrow> int option" where
  "dependabotClosedDate a = orDate (dismissed_at a) (fixed_at a)"

text \<open>\<^verbatim>\<open>ecosystems.add(...)\<close> on a \<^verbatim>\<open>Set\<close>, which keeps the order of first insertion.\<close>

definition addEcosystem :: "alert \<Rightarrow> string list \<Rightarrow> string list" where
  "addEcosystem a es =
     (case ecosystem a of
        None \<Rightarrow> es
      | Some e \<Rightarrow> if e = [] then es else if e \<in> set es then es else es @ [e])"

definition dependabotSummary :: "alert list \<Rightarrow> int \<Rightarrow> int \<Rightarrow> summary" where
  "dependabotSummary alerts t30 nw =
     (let bySeverity = deltas dependabotSeverity dependabotClosedDate t30 alerts;
          openedBySeverity = fst bySeverity;
          closedBySeverity = snd bySeverity;
          openAlerts = filter (\<lambda>a. state a = ''open'') alerts;
          closedAlerts = filter (\<lambda>a. state a = ''dismissed'' \<or> state a = ''fixed'') alerts
      in \<lparr>total_n = length openAlerts,
          critical = Some (countLabel advisory_severity ''critical'' openAlerts),
          high = Some (countLabel advisory_severity ''high'' openAlerts),
          medium = Some (countLabel advisory_severity ''medium'' openAlerts),
          low = Some (countLabel advisory_severity ''low'' openAlerts),
          info = None,
          ecosystems = Some (fold addEcosystem openAlerts []),
          secretTypes = None,
          openedLast30Days = sumSeverity openedBySeverity,
          closedLast30Days = sumSeverity closedBySeverity,
          openedLast30DaysBySeverity = openedBySeverity,
          closedLast30DaysBySeverity = closedBySeverity,
          aging = Some (agingOf nw openAlerts),
          mttr = Some (mttrOf dependabotClosedDate closedAlerts),
          lastUpdated = lastUpdatedOf alerts,
          enabled = True\<rparr>)"

definition disabledDependabot :: summary where
  "disabledDependabot =
     \<lparr>total_n = 0, critical = Some 0, high = Some 0, medium = Some 0, low = Some 0,
      info = None, ecosystems = Some [], secretTypes = None,
      openedLast30Days = 0, closedLast30Days = 0,
      openedLast30DaysBySeverity = zeroBySeverity,
      closedLast30DaysBySeverity = zeroBySeverity,
      aging = Some zeroAging, mttr = Some 0, lastUpdated = None, enabled = False\<rparr>"

definition fetchDependabotAlerts :: "alert_world \<Rightarrow> (nat option + summary) option" where
  "fetchDependabotAlerts w =
     (case fetchStates (endpoint w) [''open'', ''dismissed'', ''fixed'', ''auto_dismissed''] [] of
        None \<Rightarrow> None
      | Some (Inr alerts) \<Rightarrow> Some (Inr (dependabotSummary alerts (thirtyDaysAgo w) (now w)))
      | Some (Inl code) \<Rightarrow>
          if code = Some 403 \<or> code = Some 404 then Some (Inr disabledDependabot)
          else Some (Inl code))"

subsection \<open>Secret scanning\<close>

text \<open>Secrets carry no severity: the 30-day counters are two plain numbers.\<close>

definition secretDeltaStep :: "int \<Rightarrow> alert \<Rightarrow> nat \<times> nat \<Rightarrow> nat \<times> nat" where
  "secretDeltaStep t30 a acc =
     (let openedCount = (case created_at a of
                      None \<Rightarrow> fst acc
                    | Some created \<Rightarrow> if created \<ge> t30 then fst acc + 1 else fst acc);
          closedCount = (case resolved_at a of
                      None \<Rightarrow> snd acc
                    | Some resolved \<Rightarrow> if resolved \<ge> t30 then snd acc + 1 else snd acc)
      in (openedCount, closedCount))"

text \<open>
  \<^verbatim>\<open>secretTypes[type] = (secretTypes[type] || 0) + 1\<close>, keys in insertion order. This
  is the order of a plain object for keys that are not array indices, as the names of
  secret types are; a key such as \<^verbatim>\<open>42\<close> would come first there.
\<close>

fun bumpType :: "string \<Rightarrow> (string \<times> nat) list \<Rightarrow> (string \<times> nat) list" where
  "bumpType t [] = [(t, 1)]"
| "bumpType t ((k, n) # kvs) = (if k = t then (k, n + 1) # kvs else (k, n) # bumpType t kvs)"

definition secretScanningSummary :: "alert list \<Rightarrow> int \<Rightarrow> int \<Rightarrow> summary" where
  "secretScanningSummary alerts t30 nw =
     (let counters = fold (secretDeltaStep t30) alerts (0, 0);
          openAlerts = filter (\<lambda>a. state a = ''open'') alerts;
          closedAlerts = filter (\<lambda>a. state a = ''resolved'') alerts
      in \<lparr>total_n = length openAlerts,
          critical = None, high = None, medium = None, low = None, info = None,
          ecosystems = None,
          secretTypes = Some (fold (\<lambda>a. bumpType (orStr (secret_type a) ''unknown'')) openAlerts []),
          openedLast30Days = fst counters,
          closedLast30Days = snd counters,
          openedLast30DaysBySeverity = zeroBySeverity,
          closedLast30DaysBySeverity = zeroBySeverity,
          aging = Some (agingOf nw openAlerts),
          mttr = Some (mttrOf resolved_at closedAlerts),
          lastUpdated = lastUpdatedOf alerts,
          enabled = True\<rparr>)"

definition disabledSecretScanning :: summary where
  "disabledSecretScanning =
     \<lparr>total_n = 0, critical = None, high = None, medium = None, low = None,
      info = None, ecosystems = None, secretTypes = Some [],
      openedLast30Days = 0, closedLast30Days = 0,
      openedLast30DaysBySeverity = zeroBySeverity,
      closedLast30DaysBySeverity = zeroBySeverity,
      aging = Some zeroAging, mttr = Some 0, lastUpdated = None, enabled = False\<rparr>"

definition fetchSecretScanningAlerts :: "alert_world \<Rightarrow> (nat option + summary) option" where
  "fetchSecretScanningAlerts w =
     (case fetchStates (endpoint w) [''open'', ''resolved''] [] of
        None \<Rightarrow> None
      | Some (Inr alerts) \<Rightarrow> Some (Inr (secretScanningSummary alerts (thirtyDaysAgo w) (now w)))
      | Some (Inl code) \<Rightarrow>
          if code = Some 403 \<or> code = Some 404 then Some (Inr disabledSecretScanning)
          else Some (Inl code))"


section \<open>Repository records\<close>

record vuln_bundle =
  codeScanning :: summary
  dependabot :: summary
  secretScanning :: summary

text \<open>The \<^verbatim>\<open>_metadata\<close> object of a fetched record.\<close>

record repo_metadata =
  stars :: "nat option"
  forks :: "nat option"
  openIssues :: "nat option"
  createdAt :: "string option"
  pushedAt :: "string option"
  defaultBranch :: "string option"
  topics :: "string list"

text \<open>
  A record of the dataset file, and of the list that \<^verbatim>\<open>enrichRepository\<close> fills. A
  record of the file was written by an earlier run or by hand, so any property but the
  two of the key may be missing.
\<close>

record repo_record =
  organization :: string
  repository :: string
  pod :: "string option"
  environmentType :: "string option"
  vertical :: "string option"
  description :: "string option"
  language :: "string option"
  status :: "string option"
  lastActivity :: "string option"
  githubUrl :: "string option"
  engineeringManager :: "string option"
  metadata :: "repo_metadata option"
  codeowners :: "bool option"
  vulnerabilities :: "vuln_bundle option"

definition noPodSelected :: string where
  "noPodSelected = ''No Pod Selected''"


section \<open>Enriching one repository\<close>

text \<open>
  The answer to \<^verbatim>\<open>GET /repos/{owner}/{name}\<close>, as far as the script reads it.
  \<open>d_topics\<close> is \<open>None\<close> when \<^verbatim>\<open>topics\<close> is not an array, \<open>d_custom_properties\<close> is
  the object of that name, from property names to values, when the answer has one.
\<close>

record repo_details =
  d_description :: "string option"
  d_language :: "string option"
  d_disabled :: bool
  d_archived :: bool
  d_updated_at :: "string option"
  d_html_url :: "string option"
  d_topics :: "string list option"
  d_custom_properties :: "(string \<times> string) list option"
  d_stargazers_count :: "nat option"
  d_forks_count :: "nat option"
  d_open_issues_count :: "nat option"
  d_created_at :: "string option"
  d_pushed_at :: "string option"
  d_default_branch :: "string option"

text \<open>
  The answer to \<^verbatim>\<open>GET /repos/{owner}/{name}/properties/values\<close>: an array of objects
  with \<^verbatim>\<open>property_name\<close> and \<^verbatim>\<open>value\<close>, or nothing the script can use (the request is
  rejected, or resolves with something that is not an array).
\<close>

datatype props_response = PropertyValues "(string option \<times> string option) list" | NoPropertyValues

text \<open>
  What one call of \<^verbatim>\<open>enrichRepository\<close> meets: the answers to the repository request
  (rejected with a status, or resolved) and to the custom properties request, for each
  path whether the contents request resolves, and the three alert endpoints.
\<close>

record repo_world =
  details :: "nat option + repo_details"
  properties :: props_response
  contents :: "string \<Rightarrow> bool"
  codeScanningWorld :: alert_world
  dependabotWorld :: alert_world
  secretScanningWorld :: alert_world

record repo_item =
  owner_login :: string
  name :: string

text \<open>
  \<^verbatim>\<open>String.prototype.includes\<close>, \<^verbatim>\<open>s.split(':')[1]\<close> for a string with a colon, and
  \<^verbatim>\<open>String.prototype.trim\<close> on the ASCII white space.
\<close>

fun includesStr :: "string \<Rightarrow> string \<Rightarrow> bool" where
  "includesStr [] sub = (sub = [])"
| "includesStr (c # cs) sub = (take (length sub) (c # cs) = sub \<or> includesStr cs sub)"

definition afterFirstColon :: "string \<Rightarrow> string" where
  "afterFirstColon s =
     takeWhile (\<lambda>c. c \<noteq> CHR '':'') (drop 1 (dropWhile (\<lambda>c. c \<noteq> CHR '':'') s))"

definition isSpace :: "char \<Rightarrow> bool" where
  "isSpace c = (c \<in> set [CHR '' '', CHR 0x09, CHR 0x0A, CHR 0x0B, CHR 0x0C, CHR 0x0D])"

definition trim :: "string \<Rightarrow> string" where
  "trim s = rev (dropWhile isSpace (rev (dropWhile isSpace s)))"

text \<open>
  The object that the script builds from the custom properties array:
  \<^verbatim>\<open>if (prop.property_name && prop.value) customProperties[prop.property_name] = prop.value\<close>.
\<close>

definition addProperty ::
  "string option \<times> string option \<Rightarrow> (string \<times> string) list \<Rightarrow> (string \<times> string) list" where
  "addProperty prop customProperties =
     (case fst prop of
        None \<Rightarrow> customProperties
      | Some property_name \<Rightarrow>
          (case snd prop of
             None \<Rightarrow> customProperties
           | Some v \<Rightarrow>
               if property_name = [] \<or> v = [] then customProperties
               else mapSet property_name v customProperties))"

definition customPropertiesOf :: "props_response \<Rightarrow> (string \<times> string) list option" where
  "customPropertiesOf r =
     (case r of PropertyValues ps \<Rightarrow> Some (fold addProperty ps []) | NoPropertyValues \<Rightarrow> None)"

text \<open>\<^verbatim>\<open>obj.Pod || obj.pod || obj.POD\<close>, and the same for the environment type.\<close>

definition pick3 :: "(string \<times> string) list \<Rightarrow> string \<Rightarrow> string \<Rightarrow> string \<Rightarrow> string option" where
  "pick3 obj a b c = orOpt (orOpt (mapGet obj a) (mapGet obj b)) (mapGet obj c)"

definition orNull :: "string option \<Rightarrow> string option" where
  "orNull a = (if truthy a then a else None)"

text \<open>
  Method 2: the first topic that has \<^verbatim>\<open>pod:\<close> in it, or has a dash and more than five
  characters; after its first colon if it has one, as it stands otherwise.
\<close>

definition podOfTopics :: "string list \<Rightarrow> string option" where
  "podOfTopics tps =
     (case find (\<lambda>topic. includesStr (toLowerCase topic) ''pod:''
                          \<or> (CHR ''-'' \<in> set topic \<and> length topic > 5)) tps of
        None \<Rightarrow> None
      | Some podTopic \<Rightarrow>
          if podTopic = [] then None
          else if CHR '':'' \<in> set podTopic then Some (trim (afterFirstColon podTopic))
          else Some podTopic)"

text \<open>
  The locals \<^verbatim>\<open>pod\<close> and \<^verbatim>\<open>environmentType\<close> after the three methods: the custom
  properties object, then \<^verbatim>\<open>custom_properties\<close> of the repository answer when no pod
  was found, then the topics when there is still none.
\<close>

definition findPod ::
  "(string \<times> string) list option \<Rightarrow> repo_details \<Rightarrow> string list \<Rightarrow> string option \<times> string option" where
  "findPod customProperties detailedRepo tps =
     (let pod1 = (case customProperties of
                    None \<Rightarrow> None
                  | Some cp \<Rightarrow> orNull (pick3 cp ''Pod'' ''pod'' ''POD''));
          environmentType1 = (case customProperties of
                    None \<Rightarrow> None
                  | Some cp \<Rightarrow>
                      orNull (pick3 cp ''EnvironmentType'' ''environmentType'' ''ENVIRONMENTTYPE''));
          pod1b = (case d_custom_properties detailedRepo of
                    None \<Rightarrow> pod1
                  | Some cp \<Rightarrow>
                      if truthy pod1 then pod1 else orOpt (pick3 cp ''Pod'' ''pod'' ''POD'') pod1);
          environmentType1b = (case d_custom_properties detailedRepo of
                    None \<Rightarrow> environmentType1
                  | Some cp \<Rightarrow>
                      if truthy pod1 then environmentType1
                      else orOpt (pick3 cp ''EnvironmentType'' ''environmentType'' ''ENVIRONMENTTYPE'')
                             environmentType1);
          pod2 = (if truthy pod1b then pod1b
                  else (case podOfTopics tps of None \<Rightarrow> pod1b | Some t \<Rightarrow> Some t))
      in (pod2, environmentType1b))"

text \<open>
  \<^verbatim>\<open>parts.slice(0, -1).join('-')\<close> for \<^verbatim>\<open>parts = pod.split('-')\<close>: the pod name up to
  its last dash.
\<close>

definition verticalOf :: "string option \<Rightarrow> string option" where
  "verticalOf p =
     (case p of
        None \<Rightarrow> None
      | Some s \<Rightarrow>
          if CHR ''-'' \<in> set s
          then Some (rev (drop 1 (dropWhile (\<lambda>c. c \<noteq> CHR ''-'') (rev s))))
          else None)"

definition codeownersPaths :: "string list" where
  "codeownersPaths = [''.github/CODEOWNERS'', ''CODEOWNERS'', ''docs/CODEOWNERS'']"

text \<open>\<^verbatim>\<open>detailedRepo.updated_at ? detailedRepo.updated_at.split('T')[0] : null\<close>.\<close>

definition lastActivityOf :: "string option \<Rightarrow> string option" where
  "lastActivityOf u =
     (case u of
        None \<Rightarrow> None
      | Some s \<Rightarrow> if s = [] then None else Some (takeWhile (\<lambda>c. c \<noteq> CHR ''T'') s))"

text \<open>
  A fetcher that throws is replaced by the disabled summary of its kind
  (\<^verbatim>\<open>try { codeScanning = await fetch...} catch (error) { codeScanning = {...} }\<close>).
\<close>

definition orDisabled :: "summary \<Rightarrow> nat option + summary \<Rightarrow> summary" where
  "orDisabled d r = (case r of Inl code \<Rightarrow> d | Inr s \<Rightarrow> s)"

text \<open>The object literal that \<^verbatim>\<open>enrichRepository\<close> returns.\<close>

definition enrichedRecord ::
  "repo_item \<Rightarrow> repo_details \<Rightarrow> string list \<Rightarrow> string option \<Rightarrow> string option \<Rightarrow> string option
   \<Rightarrow> bool \<Rightarrow> vuln_bundle \<Rightarrow> repo_record" where
  "enrichedRecord repo d tps p e v c vulns =
     \<lparr>organization = owner_login repo,
      repository = name repo,
      pod = Some (orStr p noPodSelected),
      environmentType = Some (orStr e []),
      vertical = Some (orStr v []),
      description = Some (orStr (d_description d) []),
      language = Some (orStr (d_language d) []),
      status = Some (if d_disabled d then ''deprecated'' else ''active''),
      lastActivity = lastActivityOf (d_updated_at d),
      githubUrl = d_html_url d,
      engineeringManager = None,
      metadata = Some \<lparr>stars = d_stargazers_count d, forks = d_forks_count d,
        openIssues = d_open_issues_count d, createdAt = d_created_at d,
        pushedAt = d_pushed_at d, defaultBranch = d_default_branch d, topics = tps\<rparr>,
      codeowners = Some c,
      vulnerabilities = Some vulns\<rparr>"

text \<open>
  \<^verbatim>\<open>enrichRepository\<close>. The outer \<open>option\<close> is whether the call returns at all (the
  fetchers page without bound); the inner one is the result, \<open>None\<close> for \<^verbatim>\<open>null\<close>.
  Every error of the first request, whatever its status, ends in \<^verbatim>\<open>return null\<close>; the
  custom properties request and the contents requests catch their own errors.
\<close>

definition enrichRepository :: "repo_item \<Rightarrow> repo_world \<Rightarrow> repo_record option option" where
  "enrichRepository repo w =
     (case details w of
        Inl code \<Rightarrow> Some None
      | Inr detailedRepo \<Rightarrow>
          (let tps = (case d_topics detailedRepo of None \<Rightarrow> [] | Some ts \<Rightarrow> ts);
               found = findPod (customPropertiesOf (properties w)) detailedRepo tps;
               p = fst found;
               e = snd found;
               v = verticalOf p;
               c = list_ex (contents w) codeownersPaths
           in if d_archived detailedRepo then Some None
              else
                (case fetchCodeScanningAlerts (codeScanningWorld w) of
                   None \<Rightarrow> None
                 | Some r1 \<Rightarrow>
                     (case fetchDependabotAlerts (dependabotWorld w) of
                        None \<Rightarrow> None
                      | Some r2 \<Rightarrow>
                          (case fetchSecretScanningAlerts (secretScanningWorld w) of
                             None \<Rightarrow> None
                           | Some r3 \<Rightarrow>
                               Some (Some (enrichedRecord repo detailedRepo tps p e v c
                                 \<lparr>codeScanning = orDisabled disabledCodeScanning r1,
                                  dependabot = orDisabled disabledDependabot r2,
                                  secretScanning = orDisabled disabledSecretScanning r3\<rparr>)))))))"


section \<open>Merging with the persisted records\<close>

definition repoKey :: "repo_record \<Rightarrow> string" where
  "repoKey r = organization r @ ''/'' @ repository r"

definition mapOfRepos :: "repo_record list \<Rightarrow> (string \<times> repo_record) list" where
  "mapOfRepos repos = fold (\<lambda>repo m. mapSet (repoKey repo) repo m) repos []"

text \<open>
  The default summaries of \<^verbatim>\<open>mergeWithOwnership\<close>, for a record without
  \<^verbatim>\<open>vulnerabilities\<close>; they have no \<^verbatim>\<open>aging\<close> and no \<^verbatim>\<open>mttr\<close>.
\<close>

definition defaultVulnerabilities :: vuln_bundle where
  "defaultVulnerabilities =
     \<lparr>codeScanning = disabledCodeScanning\<lparr>aging := None, mttr := None\<rparr>,
      dependabot = disabledDependabot\<lparr>aging := None, mttr := None\<rparr>,
      secretScanning = disabledSecretScanning\<lparr>aging := None, mttr := None\<rparr>\<rparr>"

definition orBundle :: "vuln_bundle option \<Rightarrow> vuln_bundle option \<Rightarrow> vuln_bundle option" where
  "orBundle a b = (case a of None \<Rightarrow> b | Some v \<Rightarrow> Some v)"

text \<open>The branch \<^verbatim>\<open>if (existing)\<close>: \<^verbatim>\<open>{ ...existing, pod: ..., ... }\<close>.\<close>

definition mergeExisting :: "repo_record \<Rightarrow> repo_record \<Rightarrow> repo_record" where
  "mergeExisting repo existing =
     existing\<lparr>
       pod := (if truthy (pod repo) \<and> pod repo \<noteq> Some noPodSelected then pod repo
               else Some (orStr (pod existing) noPodSelected)),
       environmentType := Some (orStr (orOpt (environmentType repo) (environmentType existing)) []),
       vertical := Some (orStr (orOpt (vertical repo) (vertical existing)) []),
       description := orOpt (description repo) (description existing),
       language := orOpt (language repo) (language existing),
       status := orOpt (status repo) (status existing),
       lastActivity := orOpt (lastActivity repo) (lastActivity existing),
       githubUrl := orOpt (githubUrl repo) (githubUrl existing),
       engineeringManager := Some (orStr (engineeringManager existing) []),
       codeowners := (case codeowners repo of
                        Some b \<Rightarrow> Some b
                      | None \<Rightarrow> Some (codeowners existing = Some True)),
       vulnerabilities :=
         orBundle (orBundle (vulnerabilities repo) (vulnerabilities existing))
           (Some defaultVulnerabilities)\<rparr>"

text \<open>The branch of a new repository: \<^verbatim>\<open>{ ...repo, pod: ..., ... }\<close>.\<close>

definition mergeNew :: "repo_record \<Rightarrow> repo_record" where
  "mergeNew repo =
     repo\<lparr>
       pod := Some (orStr (pod repo) noPodSelected),
       engineeringManager := Some (orStr (engineeringManager repo) []),
       codeowners := (case codeowners repo of Some b \<Rightarrow> Some b | None \<Rightarrow> Some False),
       vulnerabilities := orBundle (vulnerabilities repo) (Some defaultVulnerabilities)\<rparr>"

definition mergeRepo :: "(string \<times> repo_record) list \<Rightarrow> repo_record \<Rightarrow> repo_record" where
  "mergeRepo existingMap repo =
     (case mapGet existingMap (repoKey repo) of
        Some existing \<Rightarrow> mergeExisting repo existing
      | None \<Rightarrow> mergeNew repo)"

definition mergeWithOwnership :: "repo_record list \<Rightarrow> repo_record list \<Rightarrow> repo_record list" where
  "mergeWithOwnership githubData existingRepos =
     map (mergeRepo (mapOfRepos existingRepos)) githubData"


section \<open>The sync run\<close>

record stats =
  updated :: nat
  skipped :: nat
  errors :: nat

text \<open>
  The batch loop of \<^verbatim>\<open>syncSingleOrganization\<close>. The script enriches five repositories
  at a time and pushes each record when its enrichment is done, so that inside a batch
  the records come in the order of completion; here the repositories are taken one
  after the other in the order of the listing, which is one of the orders the script
  can produce. \<^verbatim>\<open>enrichRepository\<close>
  catches every error itself, so the \<^verbatim>\<open>errors\<close> counter of the loop stays where it is.
\<close>

fun enrichAll ::
  "(repo_item \<times> repo_world) list \<Rightarrow> repo_record list \<times> stats \<Rightarrow> (repo_record list \<times> stats) option" where
  "enrichAll [] acc = Some acc"
| "enrichAll ((repo, w) # rest) (enrichedRepos, st) =
     (case enrichRepository repo w of
        None \<Rightarrow> None
      | Some None \<Rightarrow> enrichAll rest (enrichedRepos, st\<lparr>skipped := skipped st + 1\<rparr>)
      | Some (Some enriched) \<Rightarrow>
          enrichAll rest (enrichedRepos @ [enriched], st\<lparr>updated := updated st + 1\<rparr>))"

text \<open>
  One organization of the run: authentication or the repository listing throws
  (\<open>OrgFailed\<close>), or the listing gives the repositories with what each enrichment
  meets.
\<close>

datatype org_world = OrgFailed | OrgListed "(repo_item \<times> repo_world) list"

definition syncSingleOrganization :: "org_world \<Rightarrow> (repo_record list \<times> stats) option" where
  "syncSingleOrganization ow =
     (case ow of
        OrgFailed \<Rightarrow> Some ([], \<lparr>updated = 0, skipped = 0, errors = 1\<rparr>)
      | OrgListed githubRepos \<Rightarrow> enrichAll githubRepos ([], \<lparr>updated = 0, skipped = 0, errors = 0\<rparr>))"

fun syncOrganizations ::
  "org_world list \<Rightarrow> repo_record list \<times> stats list \<Rightarrow> (repo_record list \<times> stats list) option" where
  "syncOrganizations [] acc = Some acc"
| "syncOrganizations (ow # rest) (allEnrichedRepos, orgStats) =
     (case syncSingleOrganization ow of
        None \<Rightarrow> None
      | Some (repos, st) \<Rightarrow> syncOrganizations rest (allEnrichedRepos @ repos, orgStats @ [st]))"

text \<open>
  \<^verbatim>\<open>Array.from(new Map(mergedRepos.map(repo => [key, repo])).values())\<close>: one record
  for each key, at the place of the first and with the value of the last.
\<close>

definition uniqueRepos :: "repo_record list \<Rightarrow> repo_record list" where
  "uniqueRepos mergedRepos = map snd (mapOfRepos mergedRepos)"

record dataset =
  repositories :: "repo_record list"
  totalRepos :: nat
  totals :: stats

definition addStats :: "stats \<Rightarrow> stats \<Rightarrow> stats" where
  "addStats acc st =
     \<lparr>updated = updated acc + updated st, skipped = skipped acc + skipped st,
      errors = errors acc + errors st\<rparr>"

text \<open>
  \<^verbatim>\<open>syncRepositories\<close> from the loading of the dataset file to the document it writes:
  only the merged records of this run go into \<^verbatim>\<open>repositories\<close>.
\<close>

definition syncRepositories :: "org_world list \<Rightarrow> repo_record list \<Rightarrow> dataset option" where
  "syncRepositories orgs existingRepos =
     (case syncOrganizations orgs ([], []) of
        None \<Rightarrow> None
      | Some (allEnrichedRepos, orgStats) \<Rightarrow>
          (let mergedRepos = mergeWithOwnership allEnrichedRepos existingRepos;
               unique = uniqueRepos mergedRepos
           in Some \<lparr>repositories = unique,
                    totalRepos = length unique,
                    totals = foldl addStats \<lparr>updated = 0, skipped = 0, errors = 0\<rparr> orgStats\<rparr>))"


section \<open>The risk scorer of the dashboard\<close>

text \<open>
  \<^verbatim>\<open>calculateRiskScore\<close> works in JavaScript numbers, that is in IEEE 754 doubles: the
  result of a division, a sum or a product is the exact result rounded to the nearest
  number with 53 significant bits, a tie going to the even one. \<open>exponentOf x\<close> is the
  \<open>e\<close> with \<open>2 ^ e \<le> x < 2 ^ (e + 1)\<close> for a positive \<open>x\<close>, and neighbouring doubles
  around \<open>x\<close> are \<open>2 ^ (e - 52)\<close> apart. Overflow and subnormal numbers are outside
  this model; the numbers of the scorer are far from both.
\<close>

definition exponentOf :: "real \<Rightarrow> int" where
  "exponentOf x = (if 1 \<le> x then bitlen \<lfloor>x\<rfloor> - 1 else - bitlen (\<lceil>1 / x\<rceil> - 1))"

definition pow2 :: "int \<Rightarrow> real" where
  "pow2 k = (if 0 \<le> k then 2 ^ nat k else 1 / 2 ^ nat (- k))"

definition roundHalfEven :: "real \<Rightarrow> int" where
  "roundHalfEven y =
     (let f = \<lfloor>y\<rfloor>
      in if y - of_int f < 1 / 2 then f
         else if 1 / 2 < y - of_int f then f + 1
         else if even f then f else f + 1)"

definition roundDouble :: "real \<Rightarrow> real" where
  "roundDouble x =
     (if x = 0 then 0
      else (let ulp = pow2 (exponentOf \<bar>x\<bar> - 52)
            in sgn x * of_int (roundHalfEven (\<bar>x\<bar> / ulp)) * ulp))"

text \<open>\<^verbatim>\<open>Math.round\<close>: the nearest integer, a half going up.\<close>

definition jsRound :: "real \<Rightarrow> int" where
  "jsRound x = \<lfloor>x + 1 / 2\<rfloor>"

text \<open>\<^verbatim>\<open>summary?.critical || 0\<close> and \<^verbatim>\<open>summary?.aging?.averageAge || 0\<close>.\<close>

definition orZero :: "nat option \<Rightarrow> nat" where
  "orZero n = (case n of None \<Rightarrow> 0 | Some k \<Rightarrow> k)"

definition averageAgeOf :: "summary \<Rightarrow> int" where
  "averageAgeOf s = (case aging s of None \<Rightarrow> 0 | Some a \<Rightarrow> averageAge a)"

text \<open>
  \<^verbatim>\<open>calculateRiskScore(repo)\<close> of the dashboard. The counts and their weighted sum are
  integers, which doubles add and multiply exactly below \<open>2 ^ 53\<close>; the quotient
  \<^verbatim>\<open>maxAge / 60\<close>, the sum \<^verbatim>\<open>1.0 + ...\<close> and the product with the base score are
  rounded. A bundle written by the sync script has its three summaries, so the
  \<^verbatim>\<open>|| {}\<close> defaults of the function are not taken; a summary without \<^verbatim>\<open>info\<close> or
  without \<^verbatim>\<open>aging\<close> counts 0 there.
\<close>

definition calculateRiskScore :: "repo_record \<Rightarrow> int" where
  "calculateRiskScore repo =
     (case vulnerabilities repo of
        None \<Rightarrow> 0
      | Some vulns \<Rightarrow>
          (let criticalCount = orZero (critical (codeScanning vulns)) + orZero (critical (dependabot vulns));
               highCount = orZero (high (codeScanning vulns)) + orZero (high (dependabot vulns));
               mediumCount = orZero (medium (codeScanning vulns)) + orZero (medium (dependabot vulns));
               lowCount = orZero (low (codeScanning vulns)) + orZero (low (dependabot vulns));
               infoCount = orZero (info (codeScanning vulns)) + orZero (info (dependabot vulns));
               secrets = total_n (secretScanning vulns);
               baseScore = criticalCount * 10 + highCount * 7 + mediumCount * 4 + lowCount * 2
                             + infoCount * 1 + secrets * 5;
               sastAge = averageAgeOf (codeScanning vulns);
               scaAge = averageAgeOf (dependabot vulns);
               secretsAge = averageAgeOf (secretScanning vulns);
               maxAge = max (max sastAge scaAge) secretsAge;
               ageMultiplier =
                 (if maxAge > 0 then min (roundDouble (1 + roundDouble (of_int maxAge / 60))) 3
                  else 1)
           in jsRound (roundDouble (of_nat baseScore * ageMultiplier))))"

text \<open>
  The score as the specification words it, for comparison with the function above: the
  base score is the weighted sum of the severity counts of the two summaries that carry
  severities plus five for each exposed secret, the age multiplier is one plus a
  sixtieth of the greatest average age, capped at three, and the score is their
  product rounded, all in exact arithmetic.
\<close>

definition spec_severityScore :: "summary \<Rightarrow> nat" where
  "spec_severityScore s =
     orZero (critical s) * 10 + orZero (high s) * 7 + orZero (medium s) * 4 + orZero (low s) * 2
       + orZero (info s) * 1"

definition spec_baseScore :: "vuln_bundle \<Rightarrow> nat" where
  "spec_baseScore b =
     spec_severityScore (codeScanning b) + spec_severityScore (dependabot b)
       + total_n (secretScanning b) * 5"

definition spec_maxAge :: "vuln_bundle \<Rightarrow> int" where
  "spec_maxAge b =
     Max {averageAgeOf (codeScanning b), averageAgeOf (dependabot b), averageAgeOf (secretScanning b)}"

definition spec_riskScore :: "vuln_bundle \<Rightarrow> int" where
  "spec_riskScore b =
     \<lfloor>real (spec_baseScore b) * min (1 + real_of_int (spec_maxAge b) / 60) 3 + 1 / 2\<rfloor>"


section \<open>Example inputs\<close>

text \<open>
  Concrete inputs for the examples below: the repository \<^verbatim>\<open>acme/api\<close>, whose three
  alert endpoints answer every request with HTTP 500 while the repository request
  succeeds and no pod is found, the record that \<^verbatim>\<open>enrichRepository\<close> returns for it,
  and the record that an earlier run and an editor left for it in the dataset file,
  with five critical Dependabot alerts.
\<close>

definition exampleItem :: repo_item where
  "exampleItem = \<lparr>owner_login = ''acme'', name = ''api''\<rparr>"

definition exampleDetails :: repo_details where
  "exampleDetails =
     \<lparr>d_description = Some ''API service'', d_language = Some ''Go'', d_disabled = False,
      d_archived = False, d_updated_at = Some ''2024-01-15T10:00:00Z'',
      d_html_url = Some ''https://github.com/acme/api'', d_topics = Some [],
      d_custom_properties = None, d_stargazers_count = Some 0, d_forks_count = Some 0,
      d_open_issues_count = Some 0, d_created_at = None, d_pushed_at = None,
      d_default_branch = Some ''main''\<rparr>"

definition failingAlerts :: alert_world where
  "failingAlerts = \<lparr>endpoint = (\<lambda>s p. Rejected (Some 500)), thirtyDaysAgo = 0, now = 0\<rparr>"

definition failingWorld :: repo_world where
  "failingWorld =
     \<lparr>details = Inr exampleDetails, properties = NoPropertyValues,
      contents = (\<lambda>p. False), codeScanningWorld = failingAlerts,
      dependabotWorld = failingAlerts, secretScanningWorld = failingAlerts\<rparr>"

definition disabledBundle :: vuln_bundle where
  "disabledBundle =
     \<lparr>codeScanning = disabledCodeScanning, dependabot = disabledDependabot,
      secretScanning = disabledSecretScanning\<rparr>"

definition freshAllFailed :: repo_record where
  "freshAllFailed =
     \<lparr>organization = ''acme'', repository = ''api'', pod = Some ''No Pod Selected'',
      environmentType = Some [], vertical = Some [], description = Some ''API service'',
      language = Some ''Go'', status = Some ''active'', lastActivity = Some ''2024-01-15'',
      githubUrl = Some ''https://github.com/acme/api'', engineeringManager = None,
      metadata = Some \<lparr>stars = Some 0, forks = Some 0, openIssues = Some 0, createdAt = None,
        pushedAt = None, defaultBranch = Some ''main'', topics = []\<rparr>,
      codeowners = Some False, vulnerabilities = Some disabledBundle\<rparr>"

definition priorRecord :: repo_record where
  "priorRecord =
     \<lparr>organization = ''acme'', repository = ''api'', pod = Some ''Core-Pod1'',
      environmentType = Some ''Prod'', vertical = Some ''Core'',
      description = Some ''API service'', language = Some ''Go'', status = Some ''active'',
      lastActivity = Some ''2024-01-01'', githubUrl = Some ''https://github.com/acme/api'',
      engineeringManager = Some ''Jane'', metadata = None, codeowners = Some True,
      vulnerabilities = Some
        \<lparr>codeScanning = disabledCodeScanning\<lparr>enabled := True\<rparr>,
         dependabot = disabledDependabot\<lparr>total_n := 5, critical := Some 5, enabled := True\<rparr>,
         secretScanning = disabledSecretScanning\<lparr>enabled := True\<rparr>\<rparr>\<rparr>"


text \<open>
  Two alerts whose labels are none of the five severity names: an open one, and one
  that was dismissed five milliseconds after its creation.
\<close>

definition warningAlert :: alert where
  "warningAlert =
     \<lparr>state = ''open'', created_at = Some 0, updated_at = None, closed_at = None,
      dismissed_at = None, fixed_at = None, resolved_at = None,
      security_severity_level = None, rule_severity = Some ''warning'',
      advisory_severity = Some ''moderate'', ecosystem = None, secret_type = None\<rparr>"

definition dismissedWarningAlert :: alert where
  "dismissedWarningAlert = warningAlert\<lparr>state := ''dismissed'', dismissed_at := Some 5\<rparr>"

text \<open>
  Bundles for the risk scorer: critical code-scanning alerts with a given average age
  and nothing else.
\<close>

definition agedBundle :: "nat \<Rightarrow> int \<Rightarrow> vuln_bundle" where
  "agedBundle n age =
     \<lparr>codeScanning = disabledCodeScanning
        \<lparr>total_n := n, critical := Some n, aging := Some (zeroAging\<lparr>averageAge := age\<rparr>),
         enabled := True\<rparr>,
      dependabot = disabledDependabot\<lparr>aging := Some (zeroAging\<lparr>averageAge := age\<rparr>), enabled := True\<rparr>,
      secretScanning = disabledSecretScanning
        \<lparr>aging := Some (zeroAging\<lparr>averageAge := age\<rparr>), enabled := True\<rparr>\<rparr>"


section \<open>Facts about the fetcher and the summarizer\<close>

lemma fetchPages_Rejected:
  "request page = Rejected code \<Longrightarrow>
   fetchPages request page alerts =
     (if code = Some 404 \<or> code = Some 403 then Some (Inr alerts) else Some (Inl code))"
  by (subst fetchPages.simps) simp

lemma fetchPages_403:
  "request page = Rejected (Some 403) \<Longrightarrow> fetchPages request page alerts = Some (Inr alerts)"
  by (simp add: fetchPages_Rejected)

lemma fetchPages_404:
  "request page = Rejected (Some 404) \<Longrightarrow> fetchPages request page alerts = Some (Inr alerts)"
  by (simp add: fetchPages_Rejected)

lemma fetchPages_short_page:
  "request page = Page r \<Longrightarrow> length r \<noteq> 100 \<Longrightarrow>
   fetchPages request page alerts = Some (Inr (alerts @ r))"
  by (subst fetchPages.simps) simp

lemma fetchPages_full_page:
  "request page = Page r \<Longrightarrow> length r = 100 \<Longrightarrow>
   fetchPages request page alerts = fetchPages request (page + 1) (alerts @ r)"
  by (subst fetchPages.simps) simp

text \<open>
  The fetch returns when every state answers its first page with fewer than 100
  alerts: the result is these pages, one after the other.
\<close>

lemma fetchStates_short_pages:
  "list_all (\<lambda>s. length (first s) \<noteq> 100 \<and> api s 1 = Page (first s)) states \<Longrightarrow>
   fetchStates api states alerts = Some (Inr (alerts @ concat (map first states)))"
  by (induction states arbitrary: alerts) (simp_all add: fetchPages_short_page)

lemma deltas_Nil: "deltas sev closedDate t30 [] = (zeroBySeverity, zeroBySeverity)"
  by (simp add: deltas_def)

lemma agingOf_Nil: "agingOf nw [] = zeroAging"
  by (simp add: agingOf_def zeroAging_def)

lemma mttrOf_Nil: "mttrOf closedDate [] = 0"
  by (simp add: mttrOf_def)

lemma sumSeverity_zero: "sumSeverity zeroBySeverity = 0"
  by (simp add: sumSeverity_def zeroBySeverity_def)

lemma codeScanningSummary_Nil:
  "codeScanningSummary [] t30 nw = disabledCodeScanning\<lparr>enabled := True\<rparr>"
  by (simp add: codeScanningSummary_def disabledCodeScanning_def deltas_Nil agingOf_Nil mttrOf_Nil
      sumSeverity_zero countLabel_def lastUpdatedOf_def)

lemma dependabotSummary_Nil:
  "dependabotSummary [] t30 nw = disabledDependabot\<lparr>enabled := True\<rparr>"
  by (simp add: dependabotSummary_def disabledDependabot_def deltas_Nil agingOf_Nil mttrOf_Nil
      sumSeverity_zero countLabel_def lastUpdatedOf_def)

lemma secretScanningSummary_Nil:
  "secretScanningSummary [] t30 nw = disabledSecretScanning\<lparr>enabled := True\<rparr>"
  by (simp add: secretScanningSummary_def disabledSecretScanning_def agingOf_Nil mttrOf_Nil
      lastUpdatedOf_def)

lemma buckets_fold:
  "b0_7 (snd (snd (fold (agingStep nw) xs acc))) = b0_7 (snd (snd acc)) +
     length (filter (\<lambda>a. case created_at a of None \<Rightarrow> False
                          | Some c \<Rightarrow> daysBetween c nw \<le> 7) xs)"
  "b8_30 (snd (snd (fold (agingStep nw) xs acc))) = b8_30 (snd (snd acc)) +
     length (filter (\<lambda>a. case created_at a of None \<Rightarrow> False
                          | Some c \<Rightarrow> 7 < daysBetween c nw \<and> daysBetween c nw \<le> 30) xs)"
  "b31_90 (snd (snd (fold (agingStep nw) xs acc))) = b31_90 (snd (snd acc)) +
     length (filter (\<lambda>a. case created_at a of None \<Rightarrow> False
                          | Some c \<Rightarrow> 30 < daysBetween c nw \<and> daysBetween c nw \<le> 90) xs)"
  "b91_180 (snd (snd (fold (agingStep nw) xs acc))) = b91_180 (snd (snd acc)) +
     length (filter (\<lambda>a. case created_at a of None \<Rightarrow> False
                          | Some c \<Rightarrow> 90 < daysBetween c nw \<and> daysBetween c nw \<le> 180) xs)"
  "b180_plus (snd (snd (fold (agingStep nw) xs acc))) = b180_plus (snd (snd acc)) +
     length (filter (\<lambda>a. case created_at a of None \<Rightarrow> False
                          | Some c \<Rightarrow> 180 < daysBetween c nw) xs)"
  by (induction xs arbitrary: acc;
      simp add: agingStep_def bumpBucket_def Let_def split: option.splits)+

lemma ageBuckets_agingOf:
  "ageBuckets (agingOf nw xs) = snd (snd (fold (agingStep nw) xs (0, 0, zeroBuckets)))"
  by (simp add: agingOf_def Let_def)

lemma toLowerCase_Nil: "toLowerCase [] = []"
  by (simp add: toLowerCase_def)

lemma severityKey_unknown:
  "toLowerCase (orStr l []) \<notin> set [''critical'', ''high'', ''medium'', ''low'', ''info''] \<Longrightarrow>
   severityKey (toLowerCase (orStr l ''medium'')) = ''medium''"
  by (cases l) (auto simp: orStr_def severityKey_def toLowerCase_def lowerChar_def split: if_splits)


lemma deltas_snoc:
  "deltas sev closedDate t30 (alerts @ [a])
     = deltaStep sev closedDate t30 a (deltas sev closedDate t30 alerts)"
  by (simp add: deltas_def)

lemma bumpSeverity_medium: "bumpSeverity ''medium'' c = c\<lparr>sev_medium := sev_medium c + 1\<rparr>"
  by (simp add: bumpSeverity_def)

lemma opened_medium:
  assumes "severityKey (sev a) = ''medium''" and "created_at a = Some t" and "t30 \<le> t"
  shows "fst (deltas sev closedDate t30 (alerts @ [a]))
       = (fst (deltas sev closedDate t30 alerts))
           \<lparr>sev_medium := sev_medium (fst (deltas sev closedDate t30 alerts)) + 1\<rparr>"
  using assms by (simp add: deltas_snoc deltaStep_def Let_def bumpSeverity_medium)

lemma closed_medium:
  assumes "severityKey (sev a) = ''medium''" and "closedDate a = Some t" and "t30 \<le> t"
  shows "snd (deltas sev closedDate t30 (alerts @ [a]))
       = (snd (deltas sev closedDate t30 alerts))
           \<lparr>sev_medium := sev_medium (snd (deltas sev closedDate t30 alerts)) + 1\<rparr>"
  using assms by (simp add: deltas_snoc deltaStep_def Let_def bumpSeverity_medium)

lemma summary_deltas:
  "openedLast30DaysBySeverity (codeScanningSummary alerts t30 nw)
     = fst (deltas codeScanningSeverity codeScanningClosedDate t30 alerts)"
  "closedLast30DaysBySeverity (codeScanningSummary alerts t30 nw)
     = snd (deltas codeScanningSeverity codeScanningClosedDate t30 alerts)"
  "openedLast30Days (codeScanningSummary alerts t30 nw)
     = sumSeverity (fst (deltas codeScanningSeverity codeScanningClosedDate t30 alerts))"
  "closedLast30Days (codeScanningSummary alerts t30 nw)
     = sumSeverity (snd (deltas codeScanningSeverity codeScanningClosedDate t30 alerts))"
  "openedLast30DaysBySeverity (dependabotSummary alerts t30 nw)
     = fst (deltas dependabotSeverity dependabotClosedDate t30 alerts)"
  "closedLast30DaysBySeverity (dependabotSummary alerts t30 nw)
     = snd (deltas dependabotSeverity dependabotClosedDate t30 alerts)"
  "openedLast30Days (dependabotSummary alerts t30 nw)
     = sumSeverity (fst (deltas dependabotSeverity dependabotClosedDate t30 alerts))"
  "closedLast30Days (dependabotSummary alerts t30 nw)
     = sumSeverity (snd (deltas dependabotSeverity dependabotClosedDate t30 alerts))"
  by (simp_all add: codeScanningSummary_def dependabotSummary_def Let_def)

lemma opened_medium_codeScanning:
  assumes "toLowerCase (orStr (codeScanningLabel b) [])
        \<notin> set [''critical'', ''high'', ''medium'', ''low'', ''info'']"
    and "created_at b = Some t" and "t30 \<le> t"
  shows "openedLast30DaysBySeverity (codeScanningSummary (alerts @ [b]) t30 nw)
       = (openedLast30DaysBySeverity (codeScanningSummary alerts t30 nw))
           \<lparr>sev_medium :=
              sev_medium (openedLast30DaysBySeverity (codeScanningSummary alerts t30 nw)) + 1\<rparr>
     \<and> openedLast30Days (codeScanningSummary (alerts @ [b]) t30 nw)
       = openedLast30Days (codeScanningSummary alerts t30 nw) + 1"
proof -
  have "severityKey (codeScanningSeverity b) = ''medium''"
    using assms(1) unfolding codeScanningSeverity_def by (rule severityKey_unknown)
  from opened_medium [where sev = codeScanningSeverity and a = b
      and closedDate = codeScanningClosedDate and alerts = alerts, OF this assms(2,3)]
  show ?thesis
    by (simp add: summary_deltas sumSeverity_def)
qed

lemma closed_medium_codeScanning:
  assumes "toLowerCase (orStr (codeScanningLabel b) [])
        \<notin> set [''critical'', ''high'', ''medium'', ''low'', ''info'']"
    and "codeScanningClosedDate b = Some t" and "t30 \<le> t"
  shows "closedLast30DaysBySeverity (codeScanningSummary (alerts @ [b]) t30 nw)
       = (closedLast30DaysBySeverity (codeScanningSummary alerts t30 nw))
           \<lparr>sev_medium :=
              sev_medium (closedLast30DaysBySeverity (codeScanningSummary alerts t30 nw)) + 1\<rparr>
     \<and> closedLast30Days (codeScanningSummary (alerts @ [b]) t30 nw)
       = closedLast30Days (codeScanningSummary alerts t30 nw) + 1"
proof -
  have "severityKey (codeScanningSeverity b) = ''medium''"
    using assms(1) unfolding codeScanningSeverity_def by (rule severityKey_unknown)
  from closed_medium [where sev = codeScanningSeverity and a = b
      and closedDate = codeScanningClosedDate and alerts = alerts, OF this assms(2,3)]
  show ?thesis
    by (simp add: summary_deltas sumSeverity_def)
qed

lemma opened_medium_dependabot:
  assumes "toLowerCase (orStr (advisory_severity b) [])
        \<notin> set [''critical'', ''high'', ''medium'', ''low'', ''info'']"
    and "created_at b = Some t" and "t30 \<le> t"
  shows "openedLast30DaysBySeverity (dependabotSummary (alerts @ [b]) t30 nw)
       = (openedLast30DaysBySeverity (dependabotSummary alerts t30 nw))
           \<lparr>sev_medium :=
              sev_medium (openedLast30DaysBySeverity (dependabotSummary alerts t30 nw)) + 1\<rparr>
     \<and> openedLast30Days (dependabotSummary (alerts @ [b]) t30 nw)
       = openedLast30Days (dependabotSummary alerts t30 nw) + 1"
proof -
  have "severityKey (dependabotSeverity b) = ''medium''"
    using assms(1) unfolding dependabotSeverity_def by (rule severityKey_unknown)
  from opened_medium [where sev = dependabotSeverity and a = b
      and closedDate = dependabotClosedDate and alerts = alerts, OF this assms(2,3)]
  show ?thesis
    by (simp add: summary_deltas sumSeverity_def)
qed

lemma closed_medium_dependabot:
  assumes "toLowerCase (orStr (advisory_severity b) [])
        \<notin> set [''critical'', ''high'', ''medium'', ''low'', ''info'']"
    and "dependabotClosedDate b = Some t" and "t30 \<le> t"
  shows "closedLast30DaysBySeverity (dependabotSummary (alerts @ [b]) t30 nw)
       = (closedLast30DaysBySeverity (dependabotSummary alerts t30 nw))
           \<lparr>sev_medium :=
              sev_medium (closedLast30DaysBySeverity (dependabotSummary alerts t30 nw)) + 1\<rparr>
     \<and> closedLast30Days (dependabotSummary (alerts @ [b]) t30 nw)
       = closedLast30Days (dependabotSummary alerts t30 nw) + 1"
proof -
  have "severityKey (dependabotSeverity b) = ''medium''"
    using assms(1) unfolding dependabotSeverity_def by (rule severityKey_unknown)
  from closed_medium [where sev = dependabotSeverity and a = b
      and closedDate = dependabotClosedDate and alerts = alerts, OF this assms(2,3)]
  show ?thesis
    by (simp add: summary_deltas sumSeverity_def)
qed


section \<open>Facts about double rounding\<close>

lemma pow2_nonpos: "k \<le> 0 \<Longrightarrow> pow2 k = 1 / 2 ^ nat (- k)"
  by (cases "k = 0") (simp_all add: pow2_def)

lemma roundHalfEven_of_int: "roundHalfEven (of_int k) = k"
  by (simp add: roundHalfEven_def)

lemma floor_le_roundHalfEven: "\<lfloor>y\<rfloor> \<le> roundHalfEven y"
  by (simp add: roundHalfEven_def Let_def)

lemma jsRound_of_int: "jsRound (of_int k) = k"
  by (simp add: jsRound_def)

text \<open>An integer below \<open>2 ^ 53\<close> is a double.\<close>

lemma roundDouble_of_int:
  assumes "0 \<le> n" and "n < 2 ^ 53"
  shows "roundDouble (of_int n) = of_int n"
proof (cases "n = 0")
  case True
  then show ?thesis by (simp add: roundDouble_def)
next
  case False
  with assms have pos: "0 < n" by simp
  define e where "e = bitlen n - 1"
  from bitlen_bounds [OF pos] have lo: "2 ^ nat e \<le> n" by (simp add: e_def)
  have e0: "0 \<le> e" using pos by (simp add: e_def bitlen_alt_def)
  from lo assms(2) have "(2::int) ^ nat e < 2 ^ 53" by linarith
  then have "nat e < 53" by (rule power_less_imp_less_exp [rotated]) simp
  with e0 have e52: "e \<le> 52" by simp
  have abs: "\<bar>real_of_int n\<bar> = real_of_int n"
    using pos by simp
  have ex: "exponentOf (real_of_int n) = e"
    using pos by (simp add: exponentOf_def e_def)
  have ulp: "pow2 (e - 52) = 1 / 2 ^ nat (52 - e)"
    using e52 by (simp add: pow2_nonpos)
  have "real_of_int n / pow2 (e - 52) = of_int (n * 2 ^ nat (52 - e))"
    by (simp add: ulp)
  then have rh: "roundHalfEven (real_of_int n / pow2 (e - 52)) = n * 2 ^ nat (52 - e)"
    by (simp only: roundHalfEven_of_int)
  have "roundDouble (of_int n) = sgn (real_of_int n) * of_int (n * 2 ^ nat (52 - e)) * pow2 (e - 52)"
    using pos unfolding roundDouble_def Let_def abs ex rh by simp
  also have "\<dots> = of_int n"
    using pos by (simp add: ulp)
  finally show ?thesis .
qed

text \<open>Rounding does not go below an integer double that the exact value has reached.\<close>

lemma roundDouble_ge:
  assumes c: "0 < c" and c53: "c \<le> 2 ^ 53" and cx: "of_int c \<le> x"
  shows "of_int c \<le> roundDouble x"
proof -
  define n where "n = \<lfloor>x\<rfloor>"
  define e where "e = bitlen n - 1"
  from c cx have x1: "1 \<le> x" by linarith
  from cx have cn: "c \<le> n" by (simp add: n_def le_floor_iff)
  with c have npos: "0 < n" by simp
  from bitlen_bounds [OF npos] have lo: "2 ^ nat e \<le> n" by (simp add: e_def)
  have e0: "0 \<le> e" using npos by (simp add: e_def bitlen_alt_def)
  have "real_of_int n \<le> x" by (simp add: n_def)
  with lo have lox: "2 ^ nat e \<le> x"
    by (metis of_int_le_iff of_int_numeral of_int_power order_trans)
  have ex: "exponentOf x = e"
    using x1 by (simp add: exponentOf_def e_def n_def)
  have rd: "roundDouble x = of_int (roundHalfEven (x / pow2 (e - 52))) * pow2 (e - 52)"
    using x1 by (simp add: roundDouble_def Let_def ex)
  show ?thesis
  proof (cases "e \<le> 52")
    case True
    define k where "k = nat (52 - e)"
    have ulp: "pow2 (e - 52) = 1 / 2 ^ k"
      using True by (simp add: pow2_nonpos k_def)
    have "of_int (c * 2 ^ k) \<le> x / pow2 (e - 52)"
      using cx by (simp add: ulp mult_right_mono)
    then have "c * 2 ^ k \<le> \<lfloor>x / pow2 (e - 52)\<rfloor>"
      by (simp only: le_floor_iff)
    with floor_le_roundHalfEven [of "x / pow2 (e - 52)"]
    have "c * 2 ^ k \<le> roundHalfEven (x / pow2 (e - 52))" by linarith
    then have "real_of_int (c * 2 ^ k) \<le> of_int (roundHalfEven (x / pow2 (e - 52)))"
      by (simp only: of_int_le_iff)
    then show ?thesis by (simp add: rd ulp pos_le_divide_eq)
  next
    case False
    define k where "k = nat (e - 52)"
    have ulp: "pow2 (e - 52) = 2 ^ k"
      using False by (simp add: pow2_def k_def)
    have ek: "nat e = 52 + k" using False by (simp add: k_def)
    have "of_int (2 ^ 52) \<le> x / pow2 (e - 52)"
      using lox by (simp add: ulp ek power_add le_divide_eq)
    then have "2 ^ 52 \<le> \<lfloor>x / pow2 (e - 52)\<rfloor>"
      by (simp only: le_floor_iff)
    with floor_le_roundHalfEven [of "x / pow2 (e - 52)"]
    have "2 ^ 52 \<le> roundHalfEven (x / pow2 (e - 52))" by linarith
    then have a: "(2::real) ^ 52 \<le> of_int (roundHalfEven (x / pow2 (e - 52)))"
      by (metis of_int_le_iff of_int_numeral of_int_power)
    from False have "1 \<le> k" by (simp add: k_def)
    then have "(2::real) ^ 1 \<le> 2 ^ k" by (intro power_increasing) simp_all
    then have b: "(2::real) \<le> 2 ^ k" by simp
    from a b have "(2::real) ^ 52 * 2 \<le> of_int (roundHalfEven (x / pow2 (e - 52))) * 2 ^ k"
      by (intro mult_mono) simp_all
    moreover have "real_of_int c \<le> 2 ^ 53"
      using c53 by (metis of_int_le_iff of_int_numeral of_int_power)
    ultimately have "real_of_int c \<le> of_int (roundHalfEven (x / pow2 (e - 52))) * 2 ^ k"
      by simp
    then show ?thesis by (simp only: rd ulp)
  qed
qed

lemma multiplier_capped:
  assumes "120 \<le> a"
  shows "min (roundDouble (1 + roundDouble (real_of_int a / 60))) 3 = 3"
proof -
  have "real_of_int 2 \<le> real_of_int a / 60" using assms by simp
  then have "real_of_int 2 \<le> roundDouble (real_of_int a / 60)"
    by (intro roundDouble_ge) simp_all
  then have "real_of_int 3 \<le> 1 + roundDouble (real_of_int a / 60)" by simp
  then have "real_of_int 3 \<le> roundDouble (1 + roundDouble (real_of_int a / 60))"
    by (intro roundDouble_ge) simp_all
  then show ?thesis by simp
qed

lemma max3: "Max {a, b, c :: int} = max (max a b) c"
  by (simp add: max.commute max.left_commute)

lemma agedBundle_scores:
  "spec_baseScore (agedBundle n age) = n * 10" "spec_maxAge (agedBundle n age) = age"
  by (simp_all add: spec_baseScore_def spec_severityScore_def spec_maxAge_def agedBundle_def
      disabledCodeScanning_def disabledDependabot_def disabledSecretScanning_def orZero_def
      averageAgeOf_def zeroAging_def)


section \<open>Facts about enrichment\<close>

lemma fetchPages_always_Rejected:
  "fetchPages (\<lambda>p. Rejected code) page alerts =
     (if code = Some 404 \<or> code = Some 403 then Some (Inr alerts) else Some (Inl code))"
  by (rule fetchPages_Rejected) simp

lemma fetch_failingAlerts:
  "fetchCodeScanningAlerts failingAlerts = Some (Inl (Some 500))"
  "fetchDependabotAlerts failingAlerts = Some (Inl (Some 500))"
  "fetchSecretScanningAlerts failingAlerts = Some (Inl (Some 500))"
  by (simp_all add: fetchCodeScanningAlerts_def fetchDependabotAlerts_def
      fetchSecretScanningAlerts_def failingAlerts_def fetchPages_always_Rejected)

lemma findPod_none: "findPod None exampleDetails [] = (None, None)"
  by (simp add: findPod_def exampleDetails_def podOfTopics_def Let_def)

lemma findPod_property:
  "findPod (customPropertiesOf (PropertyValues [(Some ''Pod'', Some ''Core-Pod1'')])) exampleDetails []
     = (Some ''Core-Pod1'', None)"
  by (simp add: findPod_def customPropertiesOf_def addProperty_def pick3_def mapGet_def orOpt_def
      orNull_def exampleDetails_def Let_def)

lemma enrich_failingWorld_plain: "enrichRepository exampleItem failingWorld = Some (Some freshAllFailed)"
  by (simp add: enrichRepository_def failingWorld_def fetch_failingAlerts customPropertiesOf_def
      findPod_none [unfolded exampleDetails_def] exampleDetails_def
      enrichedRecord_def exampleItem_def freshAllFailed_def orDisabled_def disabledBundle_def
      codeownersPaths_def lastActivityOf_def orStr_def Let_def verticalOf_def noPodSelected_def)

lemma enrich_failingWorld_pod:
  "enrichRepository exampleItem
      (failingWorld\<lparr>properties := PropertyValues [(Some ''Pod'', Some ''Core-Pod1'')]\<rparr>)
     = Some (Some (freshAllFailed\<lparr>pod := Some ''Core-Pod1'', vertical := Some ''Core''\<rparr>))"
  by (simp add: enrichRepository_def failingWorld_def fetch_failingAlerts
      findPod_property [unfolded exampleDetails_def] exampleDetails_def
      enrichedRecord_def exampleItem_def freshAllFailed_def orDisabled_def disabledBundle_def
      codeownersPaths_def lastActivityOf_def orStr_def Let_def verticalOf_def noPodSelected_def)

lemma enrichRepository_details_failed:
  "details w = Inl code \<Longrightarrow> enrichRepository repo w = Some None"
  by (simp add: enrichRepository_def)

lemma enrichRepository_archived:
  "details w = Inr d \<Longrightarrow> d_archived d \<Longrightarrow> enrichRepository repo w = Some None"
  by (simp add: enrichRepository_def Let_def)

lemma enrichRepository_SomeD:
  assumes "enrichRepository repo w = Some (Some r)"
  shows "\<exists>d tps p e v c r1 r2 r3. details w = Inr d \<and> d_archived d = False
     \<and> fetchCodeScanningAlerts (codeScanningWorld w) = Some r1
     \<and> fetchDependabotAlerts (dependabotWorld w) = Some r2
     \<and> fetchSecretScanningAlerts (secretScanningWorld w) = Some r3
     \<and> r = enrichedRecord repo d tps p e v c
           \<lparr>codeScanning = orDisabled disabledCodeScanning r1,
            dependabot = orDisabled disabledDependabot r2,
            secretScanning = orDisabled disabledSecretScanning r3\<rparr>"
  using assms
  by (auto simp: enrichRepository_def Let_def split: sum.splits option.splits if_splits
      intro!: exI)

lemma enriched_shape:
  assumes "enrichRepository repo w = Some (Some r)"
  shows "\<exists>e v. environmentType r = Some e \<and> vertical r = Some v"
    and "status r = Some ''active'' \<or> status r = Some ''deprecated''"
    and "engineeringManager r = None"
    and "\<exists>b. vulnerabilities r = Some b"
  using enrichRepository_SomeD [OF assms] by (auto simp: enrichedRecord_def)

lemma enrichAll_from_enrich:
  assumes "enrichAll xs (acc, st) = Some (res, st')"
      and "\<And>r. r \<in> set acc \<Longrightarrow> \<exists>repo w. enrichRepository repo w = Some (Some r)"
      and "r \<in> set res"
  shows "\<exists>repo w. enrichRepository repo w = Some (Some r)"
  using assms
proof (induction xs arbitrary: acc st)
  case Nil
  then show ?case by simp
next
  case (Cons x xs)
  obtain repo w where x: "x = (repo, w)" by (cases x)
  show ?case
  proof (cases "enrichRepository repo w")
    case None
    with Cons.prems x show ?thesis by simp
  next
    case (Some res1)
    show ?thesis
    proof (cases res1)
      case None
      with Some Cons.prems x show ?thesis
        by (auto intro: Cons.IH)
    next
      case (Some enriched)
      with \<open>enrichRepository repo w = Some res1\<close> Cons.prems x
      have run: "enrichAll xs (acc @ [enriched], st\<lparr>updated := updated st + 1\<rparr>) = Some (res, st')"
        by simp
      show ?thesis
      proof (rule Cons.IH [OF run _ Cons.prems(3)])
        fix r' assume "r' \<in> set (acc @ [enriched])"
        with Cons.prems(2) Some \<open>enrichRepository repo w = Some res1\<close>
        show "\<exists>repo w. enrichRepository repo w = Some (Some r')" by auto
      qed
    qed
  qed
qed

lemma syncOrganizations_from_enrich:
  assumes "syncOrganizations orgs (acc, sts) = Some (res, sts')"
      and "\<And>r. r \<in> set acc \<Longrightarrow> \<exists>repo w. enrichRepository repo w = Some (Some r)"
      and "r \<in> set res"
  shows "\<exists>repo w. enrichRepository repo w = Some (Some r)"
  using assms
proof (induction orgs arbitrary: acc sts)
  case Nil
  then show ?case by simp
next
  case (Cons ow orgs)
  from Cons.prems(1) obtain repos st where
    one: "syncSingleOrganization ow = Some (repos, st)" and
    run: "syncOrganizations orgs (acc @ repos, sts @ [st]) = Some (res, sts')"
    by (auto split: option.splits)
  have "\<exists>repo w. enrichRepository repo w = Some (Some r')" if "r' \<in> set repos" for r'
    using one that
    by (cases ow) (auto simp: syncSingleOrganization_def dest: enrichAll_from_enrich)
  with Cons.prems(2) have "\<exists>repo w. enrichRepository repo w = Some (Some r')"
    if "r' \<in> set (acc @ repos)" for r'
    using that by auto
  from Cons.IH [OF run this Cons.prems(3)] show ?case .
qed


section \<open>Facts about the merge\<close>

lemma map_of_mapSet: "map_of (mapSet k v m) = (map_of m)(k \<mapsto> v)"
  by (induction m) (auto simp: fun_eq_iff)

lemma map_of_fold_mapSet:
  "map_of (fold (\<lambda>repo m. mapSet (repoKey repo) repo m) xs m)
     = map_of m ++ map_of (rev (map (\<lambda>r. (repoKey r, r)) xs))"
proof (induction xs arbitrary: m)
  case Nil
  then show ?case by simp
next
  case (Cons x xs)
  show ?case
    by (simp add: Cons.IH map_of_mapSet fun_eq_iff map_add_def split: option.splits)
qed

lemma mapGet_mapOfRepos:
  "mapGet (mapOfRepos xs) k = map_of (rev (map (\<lambda>r. (repoKey r, r)) xs)) k"
  by (simp add: mapGet_def mapOfRepos_def map_of_fold_mapSet)

lemma mapGet_mapOfRepos_SomeD:
  assumes "mapGet (mapOfRepos xs) k = Some e"
  shows "repoKey e = k" and "e \<in> set xs"
proof -
  from assms have "(k, e) \<in> set (rev (map (\<lambda>r. (repoKey r, r)) xs))"
    unfolding mapGet_mapOfRepos by (rule map_of_SomeD)
  then show "repoKey e = k" and "e \<in> set xs" by auto
qed

lemma mapGet_mapOfRepos_distinct:
  assumes "distinct (map repoKey xs)" and "x \<in> set xs"
  shows "mapGet (mapOfRepos xs) (repoKey x) = Some x"
proof -
  have "distinct (map fst (rev (map (\<lambda>r. (repoKey r, r)) xs)))"
    using assms(1) by (simp add: rev_map [symmetric] comp_def)
  moreover have "(repoKey x, x) \<in> set (rev (map (\<lambda>r. (repoKey r, r)) xs))"
    using assms(2) by auto
  ultimately show ?thesis
    unfolding mapGet_mapOfRepos by (rule map_of_is_SomeI)
qed

lemma mapOfRepos_single: "mapOfRepos [p] = [(repoKey p, p)]"
  by (simp add: mapOfRepos_def)

lemma repoKey_examples: "repoKey freshAllFailed = ''acme/api''" "repoKey priorRecord = ''acme/api''"
  by (simp_all add: repoKey_def freshAllFailed_def priorRecord_def)

lemma orStr_idem: "orStr (Some (orStr a d)) d = orStr a d"
  by (cases a) (auto simp: orStr_def)

lemma orOpt_idem: "orOpt a (orOpt a b) = orOpt a b"
  by (simp add: orOpt_def)

lemma orOpt_same: "orOpt a a = a"
  by (simp add: orOpt_def)

lemma mergeExisting_idem: "mergeExisting r (mergeExisting r p) = mergeExisting r p"
  by (cases "truthy (environmentType r)"; cases "truthy (vertical r)")
     (auto simp: mergeExisting_def orStr_idem orOpt_idem orBundle_def noPodSelected_def
       orOpt_def orStr_def split: option.splits)

lemma mergeExisting_mergeNew:
  "environmentType r = Some e \<Longrightarrow> vertical r = Some v \<Longrightarrow> mergeExisting r (mergeNew r) = mergeNew r"
  by (auto simp: mergeExisting_def mergeNew_def orStr_idem orOpt_same orBundle_def noPodSelected_def
       orOpt_def orStr_def split: option.splits)

lemma repoKey_mergeExisting: "repoKey (mergeExisting r p) = repoKey p"
  by (simp add: repoKey_def mergeExisting_def)

lemma repoKey_mergeNew: "repoKey (mergeNew r) = repoKey r"
  by (simp add: repoKey_def mergeNew_def)

lemma repoKey_mergeRepo: "repoKey (mergeRepo (mapOfRepos P) r) = repoKey r"
  by (auto simp: mergeRepo_def repoKey_mergeExisting repoKey_mergeNew
      dest: mapGet_mapOfRepos_SomeD split: option.splits)

lemma keys_mapSet:
  "map fst (mapSet k v m) = (if k \<in> set (map fst m) then map fst m else map fst m @ [k])"
  by (induction m) force+

lemma keys_fold_mapSet:
  "map fst (fold (\<lambda>repo m. mapSet (repoKey repo) repo m) xs m)
     = fold (\<lambda>k ks. if k \<in> set ks then ks else ks @ [k]) (map repoKey xs) (map fst m)"
  by (induction xs arbitrary: m) (simp_all add: keys_mapSet)

lemma keys_mapOfRepos:
  "map repoKey xs = map repoKey ys \<Longrightarrow> map fst (mapOfRepos xs) = map fst (mapOfRepos ys)"
  by (simp add: mapOfRepos_def keys_fold_mapSet)

lemma distinct_fold_mapSet:
  "distinct (map fst m) \<Longrightarrow> distinct (map fst (fold (\<lambda>repo m. mapSet (repoKey repo) repo m) xs m))"
  by (induction xs arbitrary: m) (simp_all add: keys_mapSet)

lemma distinct_mapOfRepos: "distinct (map fst (mapOfRepos xs))"
  by (simp add: mapOfRepos_def distinct_fold_mapSet)

lemma alist_eqI:
  "map fst m = map fst m' \<Longrightarrow> distinct (map fst m) \<Longrightarrow> map_of m = map_of m' \<Longrightarrow> m = m'"
proof (induction m arbitrary: m')
  case Nil
  then show ?case by simp
next
  case (Cons a m)
  then obtain b ms where m': "m' = b # ms" by (cases m') auto
  with Cons.prems have keys: "fst a = fst b" "map fst m = map fst ms"
    and dist: "fst a \<notin> set (map fst m)" "distinct (map fst m)"
    by auto
  from Cons.prems(3) m' have eq: "map_of (a # m) k = map_of (b # ms) k" for k
    by (simp only:)
  from eq [of "fst a"] keys have snd: "snd a = snd b" by (cases a; cases b) simp
  have "map_of m k = map_of ms k" for k
  proof (cases "k = fst a")
    case True
    with dist keys have "map_of m k = None" "map_of ms k = None"
      by (simp_all add: map_of_eq_None_iff del: set_map) (metis set_map)+
    then show ?thesis by simp
  next
    case False
    from eq [of k] False keys show ?thesis by (cases a; cases b) (simp split: if_splits)
  qed
  then have "map_of m = map_of ms" by (rule ext)
  with Cons.IH keys dist have "m = ms" by blast
  with keys snd m' show ?case by (cases a; cases b) simp
qed

lemma mapGet_mapOfRepos_map:
  assumes "\<And>r. r \<in> set xs \<Longrightarrow> repoKey (h r) = repoKey r"
  shows "mapGet (mapOfRepos (map h xs)) k = map_option h (mapGet (mapOfRepos xs) k)"
proof -
  have "map_of (map (\<lambda>r. (repoKey r, r)) (map h ys)) k
      = map_option h (map_of (map (\<lambda>r. (repoKey r, r)) ys) k)"
    if "\<And>r. r \<in> set ys \<Longrightarrow> repoKey (h r) = repoKey r" for ys
    using that by (induction ys) auto
  from this [of "rev xs"] assms show ?thesis
    by (simp add: mapGet_mapOfRepos rev_map)
qed

lemma entries_fold_mapSet:
  "(k, v) \<in> set (fold (\<lambda>repo m. mapSet (repoKey repo) repo m) xs m) \<Longrightarrow>
   (k, v) \<in> set m \<or> k = repoKey v"
proof (induction xs arbitrary: m)
  case Nil
  then show ?case by simp
next
  case (Cons x xs)
  have "(k, v) \<in> set (mapSet k' v' m) \<Longrightarrow> (k, v) \<in> set m \<or> (k = k' \<and> v = v')" for k' v' m
    by (induction m) (auto split: if_splits)
  with Cons show ?case by fastforce
qed

lemma entries_mapOfRepos: "map (\<lambda>r. (repoKey r, r)) (map snd (mapOfRepos xs)) = mapOfRepos xs"
proof -
  have "\<And>p. p \<in> set (mapOfRepos xs) \<Longrightarrow> fst p = repoKey (snd p)"
    using entries_fold_mapSet [of _ _ xs "[]"] by (auto simp: mapOfRepos_def)
  then have "map ((\<lambda>r. (repoKey r, r)) \<circ> snd) (mapOfRepos xs) = mapOfRepos xs"
    by (intro map_idI) (simp add: prod_eq_iff)
  then show ?thesis by simp
qed

lemma mapGet_uniqueRepos: "mapGet (mapOfRepos (uniqueRepos xs)) k = mapGet (mapOfRepos xs) k"
proof -
  have rev_eq: "map_of (rev (mapOfRepos xs)) = map_of (mapOfRepos xs)"
    by (rule map_of_inject_set [THEN iffD2]) (simp_all add: distinct_mapOfRepos rev_map [symmetric])
  have "mapGet (mapOfRepos (uniqueRepos xs)) k
      = map_of (rev (map (\<lambda>r. (repoKey r, r)) (uniqueRepos xs))) k"
    by (rule mapGet_mapOfRepos)
  also have "\<dots> = map_of (rev (mapOfRepos xs)) k"
    by (simp only: uniqueRepos_def entries_mapOfRepos)
  also have "\<dots> = map_of (mapOfRepos xs) k"
    by (simp only: rev_eq)
  also have "\<dots> = mapGet (mapOfRepos xs) k"
    by (simp only: mapGet_def)
  finally show ?thesis .
qed

lemma mergeWithOwnership_uniqueRepos:
  "mergeWithOwnership F (uniqueRepos xs) = mergeWithOwnership F xs"
  by (simp add: mergeWithOwnership_def mergeRepo_def mapGet_uniqueRepos)

lemma mapGet_mapOfRepos_self:
  assumes "mapGet (mapOfRepos F) k = Some r"
  shows "mapGet (mapOfRepos F) (repoKey r) = Some r"
  using assms mapGet_mapOfRepos_SomeD(1) [OF assms] by simp

lemma unique_merge_twice:
  assumes shape: "\<And>r. r \<in> set F \<Longrightarrow> \<exists>e v. environmentType r = Some e \<and> vertical r = Some v"
  shows "uniqueRepos (mergeWithOwnership F (mergeWithOwnership F P))
       = uniqueRepos (mergeWithOwnership F P)"
proof -
  let ?g = "mergeRepo (mapOfRepos P)"
  let ?M1 = "map ?g F"
  let ?g2 = "mergeRepo (mapOfRepos ?M1)"
  have idem: "mergeExisting r (?g r) = ?g r" if "r \<in> set F" for r
    using shape [OF that]
    by (auto simp: mergeRepo_def mergeExisting_idem mergeExisting_mergeNew split: option.splits)
  have look1: "mapGet (mapOfRepos ?M1) k = map_option ?g (mapGet (mapOfRepos F) k)" for k
    by (rule mapGet_mapOfRepos_map) (rule repoKey_mergeRepo)
  have key2: "repoKey (?g2 r) = repoKey r" for r
    by (rule repoKey_mergeRepo)
  have look2: "mapGet (mapOfRepos (map ?g2 F)) k = map_option ?g2 (mapGet (mapOfRepos F) k)" for k
    by (rule mapGet_mapOfRepos_map) (rule key2)
  have last: "?g2 r = ?g r" if "mapGet (mapOfRepos F) k = Some r" for k r
  proof -
    have "r \<in> set F" using that by (rule mapGet_mapOfRepos_SomeD)
    moreover have "mapGet (mapOfRepos ?M1) (repoKey r) = Some (?g r)"
      by (simp add: look1 mapGet_mapOfRepos_self [OF that])
    ultimately show ?thesis
      by (simp add: mergeRepo_def [of "mapOfRepos ?M1"] idem)
  qed
  have "mapGet (mapOfRepos (map ?g2 F)) k = mapGet (mapOfRepos ?M1) k" for k
    by (cases "mapGet (mapOfRepos F) k") (simp_all add: look1 look2 last)
  then have "map_of (mapOfRepos (map ?g2 F)) = map_of (mapOfRepos ?M1)"
    by (auto simp: mapGet_def fun_eq_iff)
  moreover have "map fst (mapOfRepos (map ?g2 F)) = map fst (mapOfRepos ?M1)"
    by (rule keys_mapOfRepos) (simp add: key2 repoKey_mergeRepo)
  ultimately have "mapOfRepos (map ?g2 F) = mapOfRepos ?M1"
    using distinct_mapOfRepos by (intro alist_eqI)
  then show ?thesis
    by (simp add: mergeWithOwnership_def uniqueRepos_def)
qed

lemma merge_twice_distinct:
  assumes shape: "\<And>r. r \<in> set F \<Longrightarrow> \<exists>e v. environmentType r = Some e \<and> vertical r = Some v"
      and dist: "distinct (map repoKey F)"
  shows "mergeWithOwnership F (mergeWithOwnership F P) = mergeWithOwnership F P"
proof -
  let ?g = "mergeRepo (mapOfRepos P)"
  let ?M1 = "map ?g F"
  have "mergeRepo (mapOfRepos ?M1) r = ?g r" if "r \<in> set F" for r
  proof -
    have "mapGet (mapOfRepos ?M1) (repoKey r) = Some (?g r)"
      using mapGet_mapOfRepos_map [of F ?g "repoKey r"] mapGet_mapOfRepos_distinct [OF dist that]
      by (simp add: repoKey_mergeRepo)
    then show ?thesis
      using shape [OF that]
      by (auto simp: mergeRepo_def [of "mapOfRepos ?M1"] mergeRepo_def [of "mapOfRepos P"]
          mergeExisting_idem mergeExisting_mergeNew split: option.splits)
  qed
  then show ?thesis by (simp add: mergeWithOwnership_def)
qed

lemma set_uniqueRepos: "set (uniqueRepos xs) \<subseteq> set xs"
proof
  fix r assume "r \<in> set (uniqueRepos xs)"
  then obtain k where "(k, r) \<in> set (mapOfRepos xs)"
    by (auto simp: uniqueRepos_def)
  with distinct_mapOfRepos have "mapGet (mapOfRepos xs) k = Some r"
    by (simp add: mapGet_def)
  then show "r \<in> set xs" by (rule mapGet_mapOfRepos_SomeD)
qed

lemma status_mergeRepo:
  "status r = Some ''active'' \<or> status r = Some ''deprecated'' \<Longrightarrow> status (mergeRepo m r) = status r"
  by (auto simp: mergeRepo_def mergeExisting_def mergeNew_def orOpt_def split: option.splits)


lemma merge_fresh_prior:
  "mergeWithOwnership [freshAllFailed] [priorRecord] = [mergeExisting freshAllFailed priorRecord]"
  by (simp add: mergeWithOwnership_def mergeRepo_def mapOfRepos_single mapGet_def repoKey_examples)

lemma sync_archived_and_live:
  "syncRepositories
      [OrgListed [(\<lparr>owner_login = ''acme'', name = ''old''\<rparr>,
                   failingWorld\<lparr>details := Inr (exampleDetails\<lparr>d_archived := True\<rparr>)\<rparr>),
                  (exampleItem, failingWorld)]] [priorRecord]
     = Some \<lparr>repositories = [mergeExisting freshAllFailed priorRecord], totalRepos = 1,
             totals = \<lparr>updated = 1, skipped = 1, errors = 0\<rparr>\<rparr>"
  by (simp add: syncRepositories_def syncSingleOrganization_def enrich_failingWorld_plain
        enrichRepository_archived [of _ "exampleDetails\<lparr>d_archived := True\<rparr>"]
        merge_fresh_prior uniqueRepos_def mapOfRepos_single addStats_def)


section \<open>A feature that is not enabled\<close>

text \<open>
  C1 (the code departs from the claim). The claim: when the alert-list endpoint answers
  403 or 404, the summary of that kind is all zero with \<open>enabled = false\<close>. The code:
  the \<^verbatim>\<open>catch\<close> inside the page loop takes the 403 or 404 first and only ends the
  loop, so the outer \<^verbatim>\<open>catch\<close>, which would return the disabled summary, is never
  reached with such a status. For an endpoint that answers every request with 403, and
  for one that answers with 404, each of the three fetchers returns the zero summary
  with \<open>enabled = True\<close>. The other kinds are not touched by it: for \<^verbatim>\<open>acme/api\<close> with
  code scanning answering 403 and the two other endpoints answering 500, the bundle has
  code scanning enabled and all zero, and the disabled summaries of the two others.
\<close>

theorem forbidden_endpoint_summary_enabled:
  "fetchCodeScanningAlerts \<lparr>endpoint = (\<lambda>s p. Rejected (Some 403)), thirtyDaysAgo = t, now = n\<rparr>
     = Some (Inr (disabledCodeScanning\<lparr>enabled := True\<rparr>))
   \<and> fetchCodeScanningAlerts \<lparr>endpoint = (\<lambda>s p. Rejected (Some 404)), thirtyDaysAgo = t, now = n\<rparr>
     = Some (Inr (disabledCodeScanning\<lparr>enabled := True\<rparr>))
   \<and> fetchDependabotAlerts \<lparr>endpoint = (\<lambda>s p. Rejected (Some 403)), thirtyDaysAgo = t, now = n\<rparr>
     = Some (Inr (disabledDependabot\<lparr>enabled := True\<rparr>))
   \<and> fetchDependabotAlerts \<lparr>endpoint = (\<lambda>s p. Rejected (Some 404)), thirtyDaysAgo = t, now = n\<rparr>
     = Some (Inr (disabledDependabot\<lparr>enabled := True\<rparr>))
   \<and> fetchSecretScanningAlerts \<lparr>endpoint = (\<lambda>s p. Rejected (Some 403)), thirtyDaysAgo = t, now = n\<rparr>
     = Some (Inr (disabledSecretScanning\<lparr>enabled := True\<rparr>))
   \<and> fetchSecretScanningAlerts \<lparr>endpoint = (\<lambda>s p. Rejected (Some 404)), thirtyDaysAgo = t, now = n\<rparr>
     = Some (Inr (disabledSecretScanning\<lparr>enabled := True\<rparr>))
   \<and> enrichRepository exampleItem
        (failingWorld\<lparr>codeScanningWorld :=
           \<lparr>endpoint = (\<lambda>s p. Rejected (Some 403)), thirtyDaysAgo = t, now = n\<rparr>\<rparr>)
       = Some (Some (freshAllFailed\<lparr>vulnerabilities :=
           Some (disabledBundle\<lparr>codeScanning := disabledCodeScanning\<lparr>enabled := True\<rparr>\<rparr>)\<rparr>))"
proof -
  have "enrichRepository exampleItem
        (failingWorld\<lparr>codeScanningWorld :=
           \<lparr>endpoint = (\<lambda>s p. Rejected (Some 403)), thirtyDaysAgo = t, now = n\<rparr>\<rparr>)
       = Some (Some (freshAllFailed\<lparr>vulnerabilities :=
           Some (disabledBundle\<lparr>codeScanning := disabledCodeScanning\<lparr>enabled := True\<rparr>\<rparr>)\<rparr>))"
    by (simp add: enrichRepository_def failingWorld_def fetch_failingAlerts customPropertiesOf_def
        findPod_none [unfolded exampleDetails_def] exampleDetails_def
        enrichedRecord_def exampleItem_def freshAllFailed_def orDisabled_def disabledBundle_def
        codeownersPaths_def lastActivityOf_def orStr_def Let_def verticalOf_def noPodSelected_def
        fetchCodeScanningAlerts_def fetchPages_403 codeScanningSummary_Nil)
  then show ?thesis
    by (simp add: fetchCodeScanningAlerts_def fetchDependabotAlerts_def
        fetchSecretScanningAlerts_def fetchPages_403 fetchPages_404 codeScanningSummary_Nil
        dependabotSummary_Nil secretScanningSummary_Nil)
qed


section \<open>Severity counts of a summary\<close>

text \<open>
  C6, as the claim states it, fails: the summary of the empty list has no \<open>info\<close> count
  at all, so it is not the zero that the claim promises.
\<close>

theorem summary_info_counterexample:
  "\<not> (info (codeScanningSummary [] 0 0) = Some 0) \<and> \<not> (info (dependabotSummary [] 0 0) = Some 0)"
  by (simp add: codeScanningSummary_Nil dependabotSummary_Nil disabledCodeScanning_def
      disabledDependabot_def)

text \<open>
  C6 (amended). For every alert list, a code-scanning or Dependabot summary has the four
  open-alert counts \<open>critical\<close>, \<open>high\<close>, \<open>medium\<close>, \<open>low\<close> and no \<open>info\<close> count; the
  two 30-day maps carry all five severities and the age map all five buckets (they are
  records of five numbers). The summary of the empty list has every number 0, these
  maps filled with zeros, and \<open>enabled = True\<close>.
\<close>

theorem summary_severity_counts:
  "(\<exists>c h m l. critical (codeScanningSummary alerts t30 nw) = Some c
       \<and> high (codeScanningSummary alerts t30 nw) = Some h
       \<and> medium (codeScanningSummary alerts t30 nw) = Some m
       \<and> low (codeScanningSummary alerts t30 nw) = Some l)
   \<and> info (codeScanningSummary alerts t30 nw) = None
   \<and> (\<exists>c h m l. critical (dependabotSummary alerts t30 nw) = Some c
       \<and> high (dependabotSummary alerts t30 nw) = Some h
       \<and> medium (dependabotSummary alerts t30 nw) = Some m
       \<and> low (dependabotSummary alerts t30 nw) = Some l)
   \<and> info (dependabotSummary alerts t30 nw) = None
   \<and> codeScanningSummary [] t30 nw =
       \<lparr>total_n = 0, critical = Some 0, high = Some 0, medium = Some 0, low = Some 0,
        info = None, ecosystems = None, secretTypes = None,
        openedLast30Days = 0, closedLast30Days = 0,
        openedLast30DaysBySeverity =
          \<lparr>sev_critical = 0, sev_high = 0, sev_medium = 0, sev_low = 0, sev_info = 0\<rparr>,
        closedLast30DaysBySeverity =
          \<lparr>sev_critical = 0, sev_high = 0, sev_medium = 0, sev_low = 0, sev_info = 0\<rparr>,
        aging = Some \<lparr>oldestAge = 0, averageAge = 0,
          ageBuckets = \<lparr>b0_7 = 0, b8_30 = 0, b31_90 = 0, b91_180 = 0, b180_plus = 0\<rparr>\<rparr>,
        mttr = Some 0, lastUpdated = None, enabled = True\<rparr>
   \<and> dependabotSummary [] t30 nw =
       \<lparr>total_n = 0, critical = Some 0, high = Some 0, medium = Some 0, low = Some 0,
        info = None, ecosystems = Some [], secretTypes = None,
        openedLast30Days = 0, closedLast30Days = 0,
        openedLast30DaysBySeverity =
          \<lparr>sev_critical = 0, sev_high = 0, sev_medium = 0, sev_low = 0, sev_info = 0\<rparr>,
        closedLast30DaysBySeverity =
          \<lparr>sev_critical = 0, sev_high = 0, sev_medium = 0, sev_low = 0, sev_info = 0\<rparr>,
        aging = Some \<lparr>oldestAge = 0, averageAge = 0,
          ageBuckets = \<lparr>b0_7 = 0, b8_30 = 0, b31_90 = 0, b91_180 = 0, b180_plus = 0\<rparr>\<rparr>,
        mttr = Some 0, lastUpdated = None, enabled = True\<rparr>"
proof -
  have "codeScanningSummary [] t30 nw = disabledCodeScanning\<lparr>enabled := True\<rparr>"
    by (rule codeScanningSummary_Nil)
  moreover have "dependabotSummary [] t30 nw = disabledDependabot\<lparr>enabled := True\<rparr>"
    by (rule dependabotSummary_Nil)
  ultimately show ?thesis
    by (simp add: disabledCodeScanning_def disabledDependabot_def zeroBySeverity_def
        zeroAging_def zeroBuckets_def)
      (simp add: codeScanningSummary_def dependabotSummary_def Let_def)
qed

text \<open>
  C7, as the claim states it, fails: one open code-scanning alert without any severity
  label is counted in \<open>total\<close> and leaves the \<open>medium\<close> count at 0.
\<close>

theorem unlabelled_open_alert_counterexample:
  "total_n (codeScanningSummary
      [\<lparr>state = ''open'', created_at = Some 0, updated_at = None, closed_at = None,
        dismissed_at = None, fixed_at = None, resolved_at = None,
        security_severity_level = None, rule_severity = None, advisory_severity = None,
        ecosystem = None, secret_type = None\<rparr>] 0 0) = 1
   \<and> medium (codeScanningSummary
      [\<lparr>state = ''open'', created_at = Some 0, updated_at = None, closed_at = None,
        dismissed_at = None, fixed_at = None, resolved_at = None,
        security_severity_level = None, rule_severity = None, advisory_severity = None,
        ecosystem = None, secret_type = None\<rparr>] 0 0) = Some 0"
  by (simp add: codeScanningSummary_def Let_def countLabel_def codeScanningLabel_def orOpt_def
      orStr_def toLowerCase_Nil)

text \<open>
  C7 (amended). An open alert whose label is missing or, lower-cased, none of
  \<open>critical\<close>, \<open>high\<close>, \<open>medium\<close>, \<open>low\<close> adds one to \<open>total\<close> and nothing to the four
  open-alert counts, for code scanning and for Dependabot. The default \<open>medium\<close> is that
  of the 30-day counts only. There an alert, open or not, whose label is missing or none
  of the five names gets the key \<open>medium\<close>: created on or after the 30-day cutoff it
  adds one to the \<open>medium\<close> entry of \<open>openedLast30DaysBySeverity\<close> and to
  \<open>openedLast30Days\<close>, closed on or after the cutoff it adds one to the \<open>medium\<close> entry of
  \<open>closedLast30DaysBySeverity\<close> and to \<open>closedLast30Days\<close>, and in both maps every other
  entry stays as it was.
\<close>

theorem unknown_severity_counts:
  "(state a = ''open'' \<longrightarrow>
      toLowerCase (orStr (codeScanningLabel a) []) \<notin> set [''critical'', ''high'', ''medium'', ''low'']
      \<longrightarrow>
        total_n (codeScanningSummary (alerts @ [a]) t30 nw)
          = total_n (codeScanningSummary alerts t30 nw) + 1
      \<and> critical (codeScanningSummary (alerts @ [a]) t30 nw)
          = critical (codeScanningSummary alerts t30 nw)
      \<and> high (codeScanningSummary (alerts @ [a]) t30 nw) = high (codeScanningSummary alerts t30 nw)
      \<and> medium (codeScanningSummary (alerts @ [a]) t30 nw)
          = medium (codeScanningSummary alerts t30 nw)
      \<and> low (codeScanningSummary (alerts @ [a]) t30 nw) = low (codeScanningSummary alerts t30 nw))
   \<and> (state a = ''open'' \<longrightarrow>
      toLowerCase (orStr (advisory_severity a) []) \<notin> set [''critical'', ''high'', ''medium'', ''low'']
      \<longrightarrow>
        total_n (dependabotSummary (alerts @ [a]) t30 nw)
          = total_n (dependabotSummary alerts t30 nw) + 1
      \<and> critical (dependabotSummary (alerts @ [a]) t30 nw)
          = critical (dependabotSummary alerts t30 nw)
      \<and> high (dependabotSummary (alerts @ [a]) t30 nw) = high (dependabotSummary alerts t30 nw)
      \<and> medium (dependabotSummary (alerts @ [a]) t30 nw) = medium (dependabotSummary alerts t30 nw)
      \<and> low (dependabotSummary (alerts @ [a]) t30 nw) = low (dependabotSummary alerts t30 nw))
   \<and> (toLowerCase (orStr (codeScanningLabel a) [])
        \<notin> set [''critical'', ''high'', ''medium'', ''low'', ''info'']
      \<longrightarrow> severityKey (codeScanningSeverity a) = ''medium'')
   \<and> (toLowerCase (orStr (advisory_severity a) [])
        \<notin> set [''critical'', ''high'', ''medium'', ''low'', ''info'']
      \<longrightarrow> severityKey (dependabotSeverity a) = ''medium'')
   \<and> (toLowerCase (orStr (codeScanningLabel b) []) \<notin> set [''critical'', ''high'', ''medium'', ''low'', ''info'']
      \<longrightarrow> created_at b = Some t \<longrightarrow> t30 \<le> t \<longrightarrow>
        openedLast30DaysBySeverity (codeScanningSummary (alerts @ [b]) t30 nw)
          = (openedLast30DaysBySeverity (codeScanningSummary alerts t30 nw))
              \<lparr>sev_medium := sev_medium (openedLast30DaysBySeverity (codeScanningSummary alerts t30 nw)) + 1\<rparr>
      \<and> openedLast30Days (codeScanningSummary (alerts @ [b]) t30 nw) = openedLast30Days (codeScanningSummary alerts t30 nw) + 1)
   \<and> (toLowerCase (orStr (codeScanningLabel b) []) \<notin> set [''critical'', ''high'', ''medium'', ''low'', ''info'']
      \<longrightarrow> codeScanningClosedDate b = Some t \<longrightarrow> t30 \<le> t \<longrightarrow>
        closedLast30DaysBySeverity (codeScanningSummary (alerts @ [b]) t30 nw)
          = (closedLast30DaysBySeverity (codeScanningSummary alerts t30 nw))
              \<lparr>sev_medium := sev_medium (closedLast30DaysBySeverity (codeScanningSummary alerts t30 nw)) + 1\<rparr>
      \<and> closedLast30Days (codeScanningSummary (alerts @ [b]) t30 nw) = closedLast30Days (codeScanningSummary alerts t30 nw) + 1)
   \<and> (toLowerCase (orStr (advisory_severity b) []) \<notin> set [''critical'', ''high'', ''medium'', ''low'', ''info'']
      \<longrightarrow> created_at b = Some t \<longrightarrow> t30 \<le> t \<longrightarrow>
        openedLast30DaysBySeverity (dependabotSummary (alerts @ [b]) t30 nw)
          = (openedLast30DaysBySeverity (dependabotSummary alerts t30 nw))
              \<lparr>sev_medium := sev_medium (openedLast30DaysBySeverity (dependabotSummary alerts t30 nw)) + 1\<rparr>
      \<and> openedLast30Days (dependabotSummary (alerts @ [b]) t30 nw) = openedLast30Days (dependabotSummary alerts t30 nw) + 1)
   \<and> (toLowerCase (orStr (advisory_severity b) []) \<notin> set [''critical'', ''high'', ''medium'', ''low'', ''info'']
      \<longrightarrow> dependabotClosedDate b = Some t \<longrightarrow> t30 \<le> t \<longrightarrow>
        closedLast30DaysBySeverity (dependabotSummary (alerts @ [b]) t30 nw)
          = (closedLast30DaysBySeverity (dependabotSummary alerts t30 nw))
              \<lparr>sev_medium := sev_medium (closedLast30DaysBySeverity (dependabotSummary alerts t30 nw)) + 1\<rparr>
      \<and> closedLast30Days (dependabotSummary (alerts @ [b]) t30 nw) = closedLast30Days (dependabotSummary alerts t30 nw) + 1)"
proof -
  have cs: "severityKey (codeScanningSeverity a) = ''medium''"
    if "toLowerCase (orStr (codeScanningLabel a) [])
          \<notin> set [''critical'', ''high'', ''medium'', ''low'', ''info'']"
    using that unfolding codeScanningSeverity_def by (rule severityKey_unknown)
  have db: "severityKey (dependabotSeverity a) = ''medium''"
    if "toLowerCase (orStr (advisory_severity a) [])
          \<notin> set [''critical'', ''high'', ''medium'', ''low'', ''info'']"
    using that unfolding dependabotSeverity_def by (rule severityKey_unknown)
  show ?thesis
    apply (intro conjI)
    subgoal by (simp add: codeScanningSummary_def Let_def countLabel_def)
    subgoal by (simp add: dependabotSummary_def Let_def countLabel_def)
    subgoal using cs by simp
    subgoal using db by simp
    subgoal by (intro impI, rule opened_medium_codeScanning)
    subgoal by (intro impI, rule closed_medium_codeScanning)
    subgoal by (intro impI, rule opened_medium_dependabot)
    subgoal by (intro impI, rule closed_medium_dependabot)
    done
qed

text \<open>
  The theorem at an open alert labelled \<open>warning\<close> (code scanning) and \<open>moderate\<close>
  (Dependabot), and at the same alert dismissed after the cutoff: the first is in
  \<open>total\<close> and in no open-alert count, the second is counted under \<open>medium\<close> in both
  30-day maps of both kinds.
\<close>

theorem unknown_severity_counts_witness:
  "state warningAlert = ''open''
   \<and> total_n (codeScanningSummary ([] @ [warningAlert]) 0 0) = 1
   \<and> medium (codeScanningSummary ([] @ [warningAlert]) 0 0) = Some 0
   \<and> total_n (dependabotSummary ([] @ [warningAlert]) 0 0) = 1
   \<and> medium (dependabotSummary ([] @ [warningAlert]) 0 0) = Some 0
   \<and> severityKey (codeScanningSeverity warningAlert) = ''medium''
   \<and> severityKey (dependabotSeverity warningAlert) = ''medium''
   \<and> created_at dismissedWarningAlert = Some 0
   \<and> codeScanningClosedDate dismissedWarningAlert = Some 5
   \<and> dependabotClosedDate dismissedWarningAlert = Some 5
   \<and> openedLast30DaysBySeverity (codeScanningSummary ([] @ [dismissedWarningAlert]) 0 0)
        = zeroBySeverity\<lparr>sev_medium := 1\<rparr>
   \<and> openedLast30Days (codeScanningSummary ([] @ [dismissedWarningAlert]) 0 0) = 1
   \<and> closedLast30DaysBySeverity (codeScanningSummary ([] @ [dismissedWarningAlert]) 0 0)
        = zeroBySeverity\<lparr>sev_medium := 1\<rparr>
   \<and> closedLast30Days (codeScanningSummary ([] @ [dismissedWarningAlert]) 0 0) = 1
   \<and> openedLast30DaysBySeverity (dependabotSummary ([] @ [dismissedWarningAlert]) 0 0)
        = zeroBySeverity\<lparr>sev_medium := 1\<rparr>
   \<and> openedLast30Days (dependabotSummary ([] @ [dismissedWarningAlert]) 0 0) = 1
   \<and> closedLast30DaysBySeverity (dependabotSummary ([] @ [dismissedWarningAlert]) 0 0)
        = zeroBySeverity\<lparr>sev_medium := 1\<rparr>
   \<and> closedLast30Days (dependabotSummary ([] @ [dismissedWarningAlert]) 0 0) = 1"
proof -
  have labels:
    "toLowerCase (orStr (codeScanningLabel warningAlert) []) = ''warning''"
    "toLowerCase (orStr (advisory_severity warningAlert) []) = ''moderate''"
    "toLowerCase (orStr (codeScanningLabel dismissedWarningAlert) []) = ''warning''"
    "toLowerCase (orStr (advisory_severity dismissedWarningAlert) []) = ''moderate''"
    by (simp_all add: warningAlert_def dismissedWarningAlert_def codeScanningLabel_def orOpt_def
        orStr_def toLowerCase_def lowerChar_def)
  have fields:
    "state warningAlert = ''open''"
    "created_at dismissedWarningAlert = Some 0"
    "codeScanningClosedDate dismissedWarningAlert = Some 5"
    "dependabotClosedDate dismissedWarningAlert = Some 5"
    by (simp_all add: warningAlert_def dismissedWarningAlert_def codeScanningClosedDate_def
        dependabotClosedDate_def orDate_def)
  have empty:
    "openedLast30DaysBySeverity (codeScanningSummary [] 0 0) = zeroBySeverity"
    "closedLast30DaysBySeverity (codeScanningSummary [] 0 0) = zeroBySeverity"
    "openedLast30Days (codeScanningSummary [] 0 0) = 0"
    "closedLast30Days (codeScanningSummary [] 0 0) = 0"
    "openedLast30DaysBySeverity (dependabotSummary [] 0 0) = zeroBySeverity"
    "closedLast30DaysBySeverity (dependabotSummary [] 0 0) = zeroBySeverity"
    "openedLast30Days (dependabotSummary [] 0 0) = 0"
    "closedLast30Days (dependabotSummary [] 0 0) = 0"
    "total_n (codeScanningSummary [] 0 0) = 0"
    "medium (codeScanningSummary [] 0 0) = Some 0"
    "total_n (dependabotSummary [] 0 0) = 0"
    "medium (dependabotSummary [] 0 0) = Some 0"
    by (simp_all add: codeScanningSummary_Nil dependabotSummary_Nil disabledCodeScanning_def
        disabledDependabot_def)
  have zero: "sev_medium zeroBySeverity = 0"
    by (simp add: zeroBySeverity_def)
  from unknown_severity_counts [of warningAlert "[]" 0 0 dismissedWarningAlert 5]
  have closedPart:
    "closedLast30DaysBySeverity (codeScanningSummary ([] @ [dismissedWarningAlert]) 0 0)
        = zeroBySeverity\<lparr>sev_medium := 1\<rparr>
     \<and> closedLast30Days (codeScanningSummary ([] @ [dismissedWarningAlert]) 0 0) = 1
     \<and> closedLast30DaysBySeverity (dependabotSummary ([] @ [dismissedWarningAlert]) 0 0)
        = zeroBySeverity\<lparr>sev_medium := 1\<rparr>
     \<and> closedLast30Days (dependabotSummary ([] @ [dismissedWarningAlert]) 0 0) = 1"
    by (simp add: labels fields empty zero)
  from unknown_severity_counts [of warningAlert "[]" 0 0 dismissedWarningAlert 0]
  have openedPart:
    "total_n (codeScanningSummary ([] @ [warningAlert]) 0 0) = 1
     \<and> medium (codeScanningSummary ([] @ [warningAlert]) 0 0) = Some 0
     \<and> total_n (dependabotSummary ([] @ [warningAlert]) 0 0) = 1
     \<and> medium (dependabotSummary ([] @ [warningAlert]) 0 0) = Some 0
     \<and> severityKey (codeScanningSeverity warningAlert) = ''medium''
     \<and> severityKey (dependabotSeverity warningAlert) = ''medium''
     \<and> openedLast30DaysBySeverity (codeScanningSummary ([] @ [dismissedWarningAlert]) 0 0)
        = zeroBySeverity\<lparr>sev_medium := 1\<rparr>
     \<and> openedLast30Days (codeScanningSummary ([] @ [dismissedWarningAlert]) 0 0) = 1
     \<and> openedLast30DaysBySeverity (dependabotSummary ([] @ [dismissedWarningAlert]) 0 0)
        = zeroBySeverity\<lparr>sev_medium := 1\<rparr>
     \<and> openedLast30Days (dependabotSummary ([] @ [dismissedWarningAlert]) 0 0) = 1"
    by (simp add: labels fields empty zero)
  from openedPart closedPart fields show ?thesis
    by simp
qed


section \<open>The risk score\<close>

text \<open>
  C8, as the claim states it, fails twice. The product is one of doubles: for 99
  critical code-scanning alerts (base score 990) and a greatest average age of 1 day
  the quotient \<open>1 / 60\<close> and the sum \<open>1 + 1 / 60\<close> are rounded, the product comes out
  just below 1006.5 and the score is 1006, where the formula of the claim gives
  \<open>990 \<times> 61 / 60 = 1006.5\<close> and so 1007. And the multiplier is 1.0 unless the
  greatest average age is positive: with one critical alert and three average ages of
  \<open>- 60\<close> days the score is 10, where the formula of the claim gives \<open>10 \<times> 0 = 0\<close>.
\<close>

theorem risk_score_counterexample:
  "calculateRiskScore (priorRecord\<lparr>vulnerabilities := Some (agedBundle 99 1)\<rparr>) = 1006
   \<and> spec_riskScore (agedBundle 99 1) = 1007
   \<and> calculateRiskScore (priorRecord\<lparr>vulnerabilities := Some (agedBundle 1 (- 60))\<rparr>) = 10
   \<and> spec_riskScore (agedBundle 1 (- 60)) = 0"
  apply (intro conjI)
     apply (simp add: calculateRiskScore_def agedBundle_def disabledCodeScanning_def
      disabledDependabot_def disabledSecretScanning_def zeroAging_def orZero_def averageAgeOf_def
      Let_def)
     apply (simp add: jsRound_def roundDouble_def exponentOf_def pow2_def roundHalfEven_def Let_def
      compute_bitlen)
    apply (simp add: spec_riskScore_def agedBundle_scores)
   apply (simp add: calculateRiskScore_def agedBundle_def disabledCodeScanning_def
      disabledDependabot_def disabledSecretScanning_def zeroAging_def orZero_def averageAgeOf_def
      Let_def)
   apply (simp add: jsRound_def roundDouble_def exponentOf_def pow2_def roundHalfEven_def Let_def
      compute_bitlen)
  apply (simp add: spec_riskScore_def agedBundle_scores)
  done

text \<open>
  C8 (amended). The score of a record without a bundle is 0. The score of a record with
  a bundle is \<^verbatim>\<open>Math.round\<close> of the double product of the base score and the age
  multiplier: the base score is the weighted sum of the claim, a missing count being 0,
  and the multiplier is 1.0 when the greatest of the three average ages is not
  positive and otherwise \<open>min (1.0 + max / 60, 3.0)\<close> with the quotient and the sum each
  rounded to the nearest double. Where no rounding happens the score is the exact one:
  it is the base score when no average age is positive, and three times the base score
  when the greatest average age is 120 days or more (base scores below \<open>2 ^ 53\<close>, which
  doubles hold exactly).
\<close>

theorem risk_score_double:
  "calculateRiskScore repo =
     (case vulnerabilities repo of
        None \<Rightarrow> 0
      | Some b \<Rightarrow>
          jsRound (roundDouble (real (spec_baseScore b) *
            (if 0 < spec_maxAge b
             then min (roundDouble (1 + roundDouble (real_of_int (spec_maxAge b) / 60))) 3
             else 1))))
   \<and> (vulnerabilities young = Some b1 \<longrightarrow> spec_maxAge b1 \<le> 0 \<longrightarrow> spec_baseScore b1 < 2 ^ 53 \<longrightarrow>
        calculateRiskScore young = int (spec_baseScore b1))
   \<and> (vulnerabilities aged = Some b2 \<longrightarrow> 120 \<le> spec_maxAge b2 \<longrightarrow> 3 * spec_baseScore b2 < 2 ^ 53 \<longrightarrow>
        calculateRiskScore aged = 3 * int (spec_baseScore b2))"
proof -
  have eq: "calculateRiskScore r =
     (case vulnerabilities r of
        None \<Rightarrow> 0
      | Some b \<Rightarrow>
          jsRound (roundDouble (real (spec_baseScore b) *
            (if 0 < spec_maxAge b
             then min (roundDouble (1 + roundDouble (real_of_int (spec_maxAge b) / 60))) 3
             else 1))))" for r
    by (simp add: calculateRiskScore_def spec_baseScore_def spec_severityScore_def spec_maxAge_def
        max3 Let_def algebra_simps split: option.splits)
  have lo: "calculateRiskScore young = int (spec_baseScore b1)"
    if "vulnerabilities young = Some b1" "spec_maxAge b1 \<le> 0" "spec_baseScore b1 < 2 ^ 53"
  proof -
    have "roundDouble (of_int (int (spec_baseScore b1))) = of_int (int (spec_baseScore b1))"
      using that(3) by (intro roundDouble_of_int) simp_all
    then have "jsRound (roundDouble (real (spec_baseScore b1))) = int (spec_baseScore b1)"
      using jsRound_of_int [of "int (spec_baseScore b1)"] by simp
    with that eq [of young] show ?thesis by simp
  qed
  have hi: "calculateRiskScore aged = 3 * int (spec_baseScore b2)"
    if "vulnerabilities aged = Some b2" "120 \<le> spec_maxAge b2" "3 * spec_baseScore b2 < 2 ^ 53"
  proof -
    have cap: "min (roundDouble (1 + roundDouble (real_of_int (spec_maxAge b2) / 60))) 3 = 3"
      using that(2) by (rule multiplier_capped)
    have "int (3 * spec_baseScore b2) < 2 ^ 53"
      using that(3) by (metis of_nat_less_iff of_nat_numeral of_nat_power)
    then have "roundDouble (of_int (int (3 * spec_baseScore b2))) = of_int (int (3 * spec_baseScore b2))"
      by (intro roundDouble_of_int) simp_all
    then have "roundDouble (real (spec_baseScore b2) * 3) = of_int (3 * int (spec_baseScore b2))"
      by (simp add: mult.commute)
    then have "jsRound (roundDouble (real (spec_baseScore b2) * 3)) = 3 * int (spec_baseScore b2)"
      by (simp only: jsRound_of_int)
    with that(1,2) cap eq [of aged] show ?thesis by simp
  qed
  from eq [of repo] lo hi show ?thesis by blast
qed

text \<open>
  The theorem at two critical code-scanning alerts (base score 20): with average ages
  of 0 the score is 20, with average ages of 120 days it is 60.
\<close>

theorem risk_score_double_witness:
  "vulnerabilities (priorRecord\<lparr>vulnerabilities := Some (agedBundle 2 0)\<rparr>) = Some (agedBundle 2 0)
   \<and> spec_maxAge (agedBundle 2 0) \<le> 0
   \<and> spec_baseScore (agedBundle 2 0) < 2 ^ 53
   \<and> calculateRiskScore (priorRecord\<lparr>vulnerabilities := Some (agedBundle 2 0)\<rparr>) = 20
   \<and> vulnerabilities (priorRecord\<lparr>vulnerabilities := Some (agedBundle 2 120)\<rparr>)
        = Some (agedBundle 2 120)
   \<and> 120 \<le> spec_maxAge (agedBundle 2 120)
   \<and> 3 * spec_baseScore (agedBundle 2 120) < 2 ^ 53
   \<and> calculateRiskScore (priorRecord\<lparr>vulnerabilities := Some (agedBundle 2 120)\<rparr>) = 60"
  using risk_score_double [of priorRecord
      "priorRecord\<lparr>vulnerabilities := Some (agedBundle 2 0)\<rparr>" "agedBundle 2 0"
      "priorRecord\<lparr>vulnerabilities := Some (agedBundle 2 120)\<rparr>" "agedBundle 2 120"]
  by (simp add: agedBundle_scores)


section \<open>Age buckets\<close>

text \<open>
  C9. The age histogram of a summary counts, over the open alerts that have a creation
  time, those of at most 7 days in \<open>0-7\<close>, of 8 to 30 days in \<open>8-30\<close>, of 31 to 90 in
  \<open>31-90\<close>, of 91 to 180 in \<open>91-180\<close> and of more than 180 days in \<open>180+\<close>. So an alert of
  exactly 7, 30, 90 or 180 days goes to the bucket that ends there, not to the next one,
  and one of 181 days or more goes to \<open>180+\<close>. All three fetchers use this histogram on
  their open alerts.
\<close>

theorem age_bucket_boundaries:
  "b0_7 (ageBuckets (agingOf nw openAlerts)) =
      length (filter (\<lambda>a. case created_at a of None \<Rightarrow> False
                          | Some c \<Rightarrow> daysBetween c nw \<le> 7) openAlerts)
   \<and> b8_30 (ageBuckets (agingOf nw openAlerts)) =
      length (filter (\<lambda>a. case created_at a of None \<Rightarrow> False
                          | Some c \<Rightarrow> 7 < daysBetween c nw \<and> daysBetween c nw \<le> 30) openAlerts)
   \<and> b31_90 (ageBuckets (agingOf nw openAlerts)) =
      length (filter (\<lambda>a. case created_at a of None \<Rightarrow> False
                          | Some c \<Rightarrow> 30 < daysBetween c nw \<and> daysBetween c nw \<le> 90) openAlerts)
   \<and> b91_180 (ageBuckets (agingOf nw openAlerts)) =
      length (filter (\<lambda>a. case created_at a of None \<Rightarrow> False
                          | Some c \<Rightarrow> 90 < daysBetween c nw \<and> daysBetween c nw \<le> 180) openAlerts)
   \<and> b180_plus (ageBuckets (agingOf nw openAlerts)) =
      length (filter (\<lambda>a. case created_at a of None \<Rightarrow> False
                          | Some c \<Rightarrow> 180 < daysBetween c nw) openAlerts)
   \<and> bumpBucket 7 b = b\<lparr>b0_7 := b0_7 b + 1\<rparr>
   \<and> bumpBucket 30 b = b\<lparr>b8_30 := b8_30 b + 1\<rparr>
   \<and> bumpBucket 90 b = b\<lparr>b31_90 := b31_90 b + 1\<rparr>
   \<and> bumpBucket 180 b = b\<lparr>b91_180 := b91_180 b + 1\<rparr>
   \<and> (\<forall>d\<ge>181. bumpBucket d b = b\<lparr>b180_plus := b180_plus b + 1\<rparr>)
   \<and> aging (codeScanningSummary alerts t30 nw)
       = Some (agingOf nw (filter (\<lambda>a. state a = ''open'') alerts))
   \<and> aging (dependabotSummary alerts t30 nw)
       = Some (agingOf nw (filter (\<lambda>a. state a = ''open'') alerts))
   \<and> aging (secretScanningSummary alerts t30 nw)
       = Some (agingOf nw (filter (\<lambda>a. state a = ''open'') alerts))"
  unfolding ageBuckets_agingOf buckets_fold
  by (simp add: zeroBuckets_def bumpBucket_def codeScanningSummary_def dependabotSummary_def
      secretScanningSummary_def Let_def)

theorem age_bucket_boundaries_witness:
  "(181::int) \<le> 200
   \<and> bumpBucket 200 zeroBuckets = zeroBuckets\<lparr>b180_plus := 1\<rparr>
   \<and> bumpBucket 180 zeroBuckets = zeroBuckets\<lparr>b91_180 := 1\<rparr>"
  using age_bucket_boundaries [where b = zeroBuckets and nw = 0 and openAlerts = "[]"]
  by (simp add: zeroBuckets_def)


section \<open>A repository whose fetch fails\<close>

text \<open>
  C2, as the claim states it, fails. For \<^verbatim>\<open>acme/api\<close>, whose prior record has five
  critical Dependabot alerts: when its three alert fetches throw a 500, the repository
  is counted as updated and the persisted record carries the disabled bundle, not the
  prior one; when its repository request throws a 500, the repository is skipped and
  the persisted list has no record for it.
\<close>

theorem failed_fetch_counterexample:
  "syncRepositories [OrgListed [(exampleItem, failingWorld)]] [priorRecord]
     = Some \<lparr>repositories = [mergeExisting freshAllFailed priorRecord], totalRepos = 1,
             totals = \<lparr>updated = 1, skipped = 0, errors = 0\<rparr>\<rparr>
   \<and> vulnerabilities (mergeExisting freshAllFailed priorRecord) = Some disabledBundle
   \<and> vulnerabilities priorRecord \<noteq> Some disabledBundle
   \<and> syncRepositories [OrgListed [(exampleItem, failingWorld\<lparr>details := Inl (Some 500)\<rparr>)]]
        [priorRecord]
     = Some \<lparr>repositories = [], totalRepos = 0,
             totals = \<lparr>updated = 0, skipped = 1, errors = 0\<rparr>\<rparr>"
proof (intro conjI)
  show "syncRepositories [OrgListed [(exampleItem, failingWorld)]] [priorRecord]
     = Some \<lparr>repositories = [mergeExisting freshAllFailed priorRecord], totalRepos = 1,
             totals = \<lparr>updated = 1, skipped = 0, errors = 0\<rparr>\<rparr>"
    by (simp add: syncRepositories_def syncSingleOrganization_def enrich_failingWorld_plain
        merge_fresh_prior uniqueRepos_def mapOfRepos_single addStats_def)
  show "vulnerabilities (mergeExisting freshAllFailed priorRecord) = Some disabledBundle"
    by (simp add: mergeExisting_def orBundle_def freshAllFailed_def)
  show "vulnerabilities priorRecord \<noteq> Some disabledBundle"
    by (simp add: priorRecord_def disabledBundle_def disabledDependabot_def)
  show "syncRepositories [OrgListed [(exampleItem, failingWorld\<lparr>details := Inl (Some 500)\<rparr>)]]
        [priorRecord]
     = Some \<lparr>repositories = [], totalRepos = 0,
             totals = \<lparr>updated = 0, skipped = 1, errors = 0\<rparr>\<rparr>"
    by (simp add: syncRepositories_def syncSingleOrganization_def enrichRepository_details_failed
        mergeWithOwnership_def uniqueRepos_def mapOfRepos_def addStats_def)
qed

text \<open>
  C2 (amended). A repository whose repository request is rejected, with whatever
  status, makes \<^verbatim>\<open>enrichRepository\<close> return \<^verbatim>\<open>null\<close>: it does not enter the list of
  updated records and the loop counts it as skipped. A repository whose alert fetches
  throw is not left out: when the repository request resolves, the repository is not
  archived and the three fetchers return or throw, it is enriched, with the disabled
  summary for each kind whose fetcher threw, and counted as updated.
\<close>

theorem failed_repository_request_skipped:
  "(details w = Inl code \<longrightarrow>
      enrichRepository repo w = Some None
      \<and> enrichAll ((repo, w) # rest) (enrichedRepos, st)
          = enrichAll rest (enrichedRepos, st\<lparr>skipped := skipped st + 1\<rparr>))
   \<and> (details w' = Inr d \<longrightarrow> d_archived d = False \<longrightarrow>
      fetchCodeScanningAlerts (codeScanningWorld w') = Some r1 \<longrightarrow>
      fetchDependabotAlerts (dependabotWorld w') = Some r2 \<longrightarrow>
      fetchSecretScanningAlerts (secretScanningWorld w') = Some r3 \<longrightarrow>
        (\<exists>r. enrichRepository repo' w' = Some (Some r)
           \<and> vulnerabilities r = Some
                \<lparr>codeScanning = (case r1 of Inl code \<Rightarrow> disabledCodeScanning | Inr s \<Rightarrow> s),
                 dependabot = (case r2 of Inl code \<Rightarrow> disabledDependabot | Inr s \<Rightarrow> s),
                 secretScanning = (case r3 of Inl code \<Rightarrow> disabledSecretScanning | Inr s \<Rightarrow> s)\<rparr>
           \<and> enrichAll ((repo', w') # rest') (enrichedRepos', st')
               = enrichAll rest' (enrichedRepos' @ [r], st'\<lparr>updated := updated st' + 1\<rparr>)))"
  by (simp add: enrichRepository_details_failed)
     (simp add: enrichRepository_def Let_def orDisabled_def enrichedRecord_def)

theorem failed_repository_request_skipped_witness:
  "details (failingWorld\<lparr>details := Inl (Some 500)\<rparr>) = Inl (Some 500)
   \<and> enrichRepository exampleItem (failingWorld\<lparr>details := Inl (Some 500)\<rparr>) = Some None
   \<and> details failingWorld = Inr exampleDetails \<and> d_archived exampleDetails = False
   \<and> fetchCodeScanningAlerts (codeScanningWorld failingWorld) = Some (Inl (Some 500))
   \<and> fetchDependabotAlerts (dependabotWorld failingWorld) = Some (Inl (Some 500))
   \<and> fetchSecretScanningAlerts (secretScanningWorld failingWorld) = Some (Inl (Some 500))
   \<and> enrichAll [(exampleItem, failingWorld)] ([], \<lparr>updated = 0, skipped = 0, errors = 0\<rparr>)
       = Some ([freshAllFailed], \<lparr>updated = 1, skipped = 0, errors = 0\<rparr>)"
proof -
  have hyps: "details (failingWorld\<lparr>details := Inl (Some 500)\<rparr>) = Inl (Some 500)"
    "details failingWorld = Inr exampleDetails" "d_archived exampleDetails = False"
    "fetchCodeScanningAlerts (codeScanningWorld failingWorld) = Some (Inl (Some 500))"
    "fetchDependabotAlerts (dependabotWorld failingWorld) = Some (Inl (Some 500))"
    "fetchSecretScanningAlerts (secretScanningWorld failingWorld) = Some (Inl (Some 500))"
    by (simp_all add: failingWorld_def exampleDetails_def fetch_failingAlerts)
  from failed_repository_request_skipped
      [of "failingWorld\<lparr>details := Inl (Some 500)\<rparr>" "Some 500" exampleItem "[]" "[]"
      "\<lparr>updated = 0, skipped = 0, errors = 0\<rparr>" failingWorld exampleDetails
      "Inl (Some 500)" "Inl (Some 500)" "Inl (Some 500)" exampleItem "[]" "[]"
      "\<lparr>updated = 0, skipped = 0, errors = 0\<rparr>"] hyps
  have "enrichRepository exampleItem (failingWorld\<lparr>details := Inl (Some 500)\<rparr>) = Some None"
    and "\<exists>r. enrichRepository exampleItem failingWorld = Some (Some r)
       \<and> enrichAll [(exampleItem, failingWorld)] ([], \<lparr>updated = 0, skipped = 0, errors = 0\<rparr>)
           = Some ([r], \<lparr>updated = 1, skipped = 0, errors = 0\<rparr>)"
    by auto
  with hyps show ?thesis
    by (auto simp: enrich_failingWorld_plain)
qed


section \<open>The bundle of a merged record\<close>

text \<open>
  C3, as the claim states it, fails. All three alert fetches of \<^verbatim>\<open>acme/api\<close> throw a
  500; the enriched record carries the disabled bundle, and merging it with the prior
  record, which has five critical Dependabot alerts, gives the disabled bundle.
\<close>

theorem all_fetches_failed_counterexample:
  "enrichRepository exampleItem failingWorld = Some (Some freshAllFailed)
   \<and> map vulnerabilities (mergeWithOwnership [freshAllFailed] [priorRecord]) = [Some disabledBundle]
   \<and> vulnerabilities priorRecord \<noteq> Some disabledBundle"
  by (simp add: enrich_failingWorld_plain mergeWithOwnership_def mergeRepo_def mapOfRepos_single
      mapGet_def repoKey_examples mergeExisting_def orBundle_def)
     (simp add: freshAllFailed_def priorRecord_def disabledBundle_def disabledDependabot_def)

text \<open>
  C3 (amended). Every record that \<^verbatim>\<open>enrichRepository\<close> returns carries a bundle, and the
  merged record has exactly this bundle, with or without a prior record; when all three
  alert fetches throw, it is the bundle of the three disabled summaries. The prior
  bundle is kept only when the fresh record has no \<^verbatim>\<open>vulnerabilities\<close> at all.
\<close>

theorem fresh_bundle_replaces_prior:
  "(enrichRepository repo w = Some (Some r) \<longrightarrow>
     (\<exists>b. vulnerabilities r = Some b \<and> vulnerabilities (mergeRepo existingMap r) = Some b)
     \<and> (fetchCodeScanningAlerts (codeScanningWorld w) = Some (Inl c1)
        \<longrightarrow> fetchDependabotAlerts (dependabotWorld w) = Some (Inl c2)
        \<longrightarrow> fetchSecretScanningAlerts (secretScanningWorld w) = Some (Inl c3)
        \<longrightarrow> vulnerabilities r = Some \<lparr>codeScanning = disabledCodeScanning,
               dependabot = disabledDependabot, secretScanning = disabledSecretScanning\<rparr>))
   \<and> (vulnerabilities repo' = None \<longrightarrow> mapGet existingMap (repoKey repo') = Some existing \<longrightarrow>
        vulnerabilities existing = Some b' \<longrightarrow>
        vulnerabilities (mergeRepo existingMap repo') = Some b')"
proof (intro impI conjI)
  assume a: "enrichRepository repo w = Some (Some r)"
  from enriched_shape(4) [OF a] obtain b where b: "vulnerabilities r = Some b" ..
  then have "vulnerabilities (mergeRepo existingMap r) = Some b"
    by (simp add: mergeRepo_def mergeExisting_def mergeNew_def orBundle_def split: option.splits)
  with b show "\<exists>b. vulnerabilities r = Some b \<and> vulnerabilities (mergeRepo existingMap r) = Some b"
    by blast
  assume "fetchCodeScanningAlerts (codeScanningWorld w) = Some (Inl c1)"
    "fetchDependabotAlerts (dependabotWorld w) = Some (Inl c2)"
    "fetchSecretScanningAlerts (secretScanningWorld w) = Some (Inl c3)"
  with enrichRepository_SomeD [OF a]
  show "vulnerabilities r = Some \<lparr>codeScanning = disabledCodeScanning,
               dependabot = disabledDependabot, secretScanning = disabledSecretScanning\<rparr>"
    by (auto simp: enrichedRecord_def orDisabled_def)
next
  assume "vulnerabilities repo' = None" "mapGet existingMap (repoKey repo') = Some existing"
    "vulnerabilities existing = Some b'"
  then show "vulnerabilities (mergeRepo existingMap repo') = Some b'"
    by (simp add: mergeRepo_def mergeExisting_def orBundle_def)
qed

theorem fresh_bundle_replaces_prior_witness:
  "enrichRepository exampleItem failingWorld = Some (Some freshAllFailed)
   \<and> fetchCodeScanningAlerts (codeScanningWorld failingWorld) = Some (Inl (Some 500))
   \<and> fetchDependabotAlerts (dependabotWorld failingWorld) = Some (Inl (Some 500))
   \<and> fetchSecretScanningAlerts (secretScanningWorld failingWorld) = Some (Inl (Some 500))
   \<and> vulnerabilities (mergeRepo (mapOfRepos [priorRecord]) freshAllFailed)
       = Some \<lparr>codeScanning = disabledCodeScanning,
               dependabot = disabledDependabot, secretScanning = disabledSecretScanning\<rparr>
   \<and> vulnerabilities (freshAllFailed\<lparr>vulnerabilities := None\<rparr>) = None
   \<and> mapGet (mapOfRepos [priorRecord]) (repoKey (freshAllFailed\<lparr>vulnerabilities := None\<rparr>))
       = Some priorRecord
   \<and> vulnerabilities (mergeRepo (mapOfRepos [priorRecord]) (freshAllFailed\<lparr>vulnerabilities := None\<rparr>))
       = vulnerabilities priorRecord"
proof -
  have key: "mapGet (mapOfRepos [priorRecord]) (repoKey (freshAllFailed\<lparr>vulnerabilities := None\<rparr>))
       = Some priorRecord"
    by (simp add: mapOfRepos_single mapGet_def repoKey_def freshAllFailed_def priorRecord_def)
  obtain b where b: "vulnerabilities priorRecord = Some b"
    by (simp add: priorRecord_def)
  have fetch: "fetchCodeScanningAlerts (codeScanningWorld failingWorld) = Some (Inl (Some 500))"
    "fetchDependabotAlerts (dependabotWorld failingWorld) = Some (Inl (Some 500))"
    "fetchSecretScanningAlerts (secretScanningWorld failingWorld) = Some (Inl (Some 500))"
    by (simp_all add: failingWorld_def fetch_failingAlerts)
  from fresh_bundle_replaces_prior
      [of exampleItem failingWorld freshAllFailed "mapOfRepos [priorRecord]"
      "Some 500" "Some 500" "Some 500" "freshAllFailed\<lparr>vulnerabilities := None\<rparr>" priorRecord b]
    enrich_failingWorld_plain fetch key b
  show ?thesis by auto
qed


section \<open>Curated fields\<close>

text \<open>
  C4. Take the record at any place \<open>i\<close> of the fresh list and let \<open>existing\<close> be what
  the map of the persisted records holds for its key. If \<open>existing\<close> has a non-empty
  pod, vertical and engineering manager, and the fresh pod is missing, empty or
  \<^verbatim>\<open>No Pod Selected\<close> and the fresh vertical is missing or empty, then the merged record
  has the pod, the vertical and the engineering manager of \<open>existing\<close>. Whatever the
  fresh record holds, the merged engineering manager is that of \<open>existing\<close>, or the
  empty string when \<open>existing\<close> has none. For a repository without a persisted record,
  a record that \<^verbatim>\<open>enrichRepository\<close> returned gets the empty string: enrichment never
  sets the property that the branch of a new repository reads.
\<close>

theorem curated_fields_preserved:
  "(i < length githubData \<longrightarrow>
      mapGet (mapOfRepos existingRepos) (repoKey (githubData ! i)) = Some existing \<longrightarrow>
      truthy (pod existing) \<longrightarrow> truthy (vertical existing) \<longrightarrow>
      truthy (engineeringManager existing) \<longrightarrow>
      (pod (githubData ! i) = None \<or> pod (githubData ! i) = Some []
         \<or> pod (githubData ! i) = Some noPodSelected) \<longrightarrow>
      (vertical (githubData ! i) = None \<or> vertical (githubData ! i) = Some []) \<longrightarrow>
        pod (mergeWithOwnership githubData existingRepos ! i) = pod existing
      \<and> vertical (mergeWithOwnership githubData existingRepos ! i) = vertical existing
      \<and> engineeringManager (mergeWithOwnership githubData existingRepos ! i)
          = engineeringManager existing)
   \<and> (i < length githubData \<longrightarrow>
      mapGet (mapOfRepos existingRepos) (repoKey (githubData ! i)) = Some existing \<longrightarrow>
        engineeringManager (mergeWithOwnership githubData existingRepos ! i)
          = Some (orStr (engineeringManager existing) []))
   \<and> (i < length githubData \<longrightarrow>
      mapGet (mapOfRepos existingRepos) (repoKey (githubData ! i)) = None \<longrightarrow>
      enrichRepository item w = Some (Some (githubData ! i)) \<longrightarrow>
        engineeringManager (mergeWithOwnership githubData existingRepos ! i) = Some [])"
proof (intro conjI impI)
  assume i: "i < length githubData"
    and ex: "mapGet (mapOfRepos existingRepos) (repoKey (githubData ! i)) = Some existing"
  then show "engineeringManager (mergeWithOwnership githubData existingRepos ! i)
          = Some (orStr (engineeringManager existing) [])"
    by (simp add: mergeWithOwnership_def mergeRepo_def mergeExisting_def)
  assume "truthy (pod existing)" "truthy (vertical existing)" "truthy (engineeringManager existing)"
    "pod (githubData ! i) = None \<or> pod (githubData ! i) = Some []
         \<or> pod (githubData ! i) = Some noPodSelected"
    "vertical (githubData ! i) = None \<or> vertical (githubData ! i) = Some []"
  with i ex show "pod (mergeWithOwnership githubData existingRepos ! i) = pod existing"
    "vertical (mergeWithOwnership githubData existingRepos ! i) = vertical existing"
    "engineeringManager (mergeWithOwnership githubData existingRepos ! i)
          = engineeringManager existing"
    by (cases "pod existing"; cases "vertical existing"; cases "engineeringManager existing";
        auto simp: mergeWithOwnership_def mergeRepo_def mergeExisting_def orStr_def orOpt_def)+
next
  assume i: "i < length githubData"
    and "mapGet (mapOfRepos existingRepos) (repoKey (githubData ! i)) = None"
    and "enrichRepository item w = Some (Some (githubData ! i))"
  with enriched_shape(3) [of item w "githubData ! i"]
  show "engineeringManager (mergeWithOwnership githubData existingRepos ! i) = Some []"
    by (simp add: mergeWithOwnership_def mergeRepo_def mergeNew_def orStr_def)
qed

theorem curated_fields_preserved_witness:
  "(0::nat) < length [freshAllFailed]
   \<and> mapGet (mapOfRepos [priorRecord]) (repoKey ([freshAllFailed] ! 0)) = Some priorRecord
   \<and> truthy (pod priorRecord) \<and> truthy (vertical priorRecord)
   \<and> truthy (engineeringManager priorRecord)
   \<and> pod ([freshAllFailed] ! 0) = Some noPodSelected
   \<and> vertical ([freshAllFailed] ! 0) = Some []
   \<and> pod (mergeWithOwnership [freshAllFailed] [priorRecord] ! 0) = Some ''Core-Pod1''
   \<and> vertical (mergeWithOwnership [freshAllFailed] [priorRecord] ! 0) = Some ''Core''
   \<and> engineeringManager (mergeWithOwnership [freshAllFailed] [priorRecord] ! 0) = Some ''Jane''
   \<and> mapGet (mapOfRepos []) (repoKey ([freshAllFailed] ! 0)) = None
   \<and> enrichRepository exampleItem failingWorld = Some (Some ([freshAllFailed] ! 0))
   \<and> engineeringManager (mergeWithOwnership [freshAllFailed] [] ! 0) = Some []"
proof -
  have key: "mapGet (mapOfRepos [priorRecord]) (repoKey ([freshAllFailed] ! 0)) = Some priorRecord"
    by (simp add: mapOfRepos_single mapGet_def repoKey_examples)
  have nokey: "mapGet (mapOfRepos []) (repoKey ([freshAllFailed] ! 0)) = None"
    by (simp add: mapOfRepos_def mapGet_def)
  have prior: "truthy (pod priorRecord)" "truthy (vertical priorRecord)"
    "truthy (engineeringManager priorRecord)" "pod priorRecord = Some ''Core-Pod1''"
    "vertical priorRecord = Some ''Core''" "engineeringManager priorRecord = Some ''Jane''"
    by (simp_all add: priorRecord_def)
  have fresh: "pod ([freshAllFailed] ! 0) = Some noPodSelected"
    "vertical ([freshAllFailed] ! 0) = Some []"
    by (simp_all add: freshAllFailed_def noPodSelected_def)
  have enriched: "enrichRepository exampleItem failingWorld = Some (Some ([freshAllFailed] ! 0))"
    by (simp add: enrich_failingWorld_plain)
  from curated_fields_preserved
      [of 0 "[freshAllFailed]" "[priorRecord]" priorRecord exampleItem failingWorld]
    key prior fresh
  have kept: "pod (mergeWithOwnership [freshAllFailed] [priorRecord] ! 0) = Some ''Core-Pod1''"
    "vertical (mergeWithOwnership [freshAllFailed] [priorRecord] ! 0) = Some ''Core''"
    "engineeringManager (mergeWithOwnership [freshAllFailed] [priorRecord] ! 0) = Some ''Jane''"
    by simp_all
  from curated_fields_preserved
      [of 0 "[freshAllFailed]" "[]" priorRecord exampleItem failingWorld]
    nokey enriched
  have new: "engineeringManager (mergeWithOwnership [freshAllFailed] [] ! 0) = Some []"
    by simp
  from key nokey prior fresh enriched kept new show ?thesis
    by simp
qed


section \<open>Merging twice\<close>

text \<open>
  C5, as the claim states it, fails. The listing names \<^verbatim>\<open>acme/api\<close> twice; the first
  enrichment finds no pod, the second finds the custom property \<^verbatim>\<open>Pod\<close> with the value
  \<^verbatim>\<open>Core-Pod1\<close>. Merged against no prior
  records, the two merged records have the pods \<^verbatim>\<open>No Pod Selected\<close> and \<^verbatim>\<open>Core-Pod1\<close>;
  merged again against that result, the first one has the pod \<^verbatim>\<open>Core-Pod1\<close>, a curated
  field that differs from the single merge.
\<close>

theorem merge_twice_counterexample:
  "syncOrganizations
     [OrgListed [(exampleItem, failingWorld),
                 (exampleItem, failingWorld\<lparr>properties := PropertyValues [(Some ''Pod'', Some ''Core-Pod1'')]\<rparr>)]] ([], [])
     = Some ([freshAllFailed, freshAllFailed\<lparr>pod := Some ''Core-Pod1'', vertical := Some ''Core''\<rparr>],
             [\<lparr>updated = 2, skipped = 0, errors = 0\<rparr>])
   \<and> map pod (mergeWithOwnership
        [freshAllFailed, freshAllFailed\<lparr>pod := Some ''Core-Pod1'', vertical := Some ''Core''\<rparr>] [])
       = [Some ''No Pod Selected'', Some ''Core-Pod1'']
   \<and> map pod (mergeWithOwnership
        [freshAllFailed, freshAllFailed\<lparr>pod := Some ''Core-Pod1'', vertical := Some ''Core''\<rparr>]
        (mergeWithOwnership
          [freshAllFailed, freshAllFailed\<lparr>pod := Some ''Core-Pod1'', vertical := Some ''Core''\<rparr>] []))
       = [Some ''Core-Pod1'', Some ''Core-Pod1'']"
proof (intro conjI)
  show "syncOrganizations
     [OrgListed [(exampleItem, failingWorld),
                 (exampleItem, failingWorld\<lparr>properties := PropertyValues [(Some ''Pod'', Some ''Core-Pod1'')]\<rparr>)]] ([], [])
     = Some ([freshAllFailed, freshAllFailed\<lparr>pod := Some ''Core-Pod1'', vertical := Some ''Core''\<rparr>],
             [\<lparr>updated = 2, skipped = 0, errors = 0\<rparr>])"
    by (simp add: syncSingleOrganization_def enrich_failingWorld_plain enrich_failingWorld_pod)
  show "map pod (mergeWithOwnership
        [freshAllFailed, freshAllFailed\<lparr>pod := Some ''Core-Pod1'', vertical := Some ''Core''\<rparr>] [])
       = [Some ''No Pod Selected'', Some ''Core-Pod1'']"
    by (simp add: mergeWithOwnership_def mergeRepo_def mapOfRepos_def mapGet_def mergeNew_def)
       (simp add: freshAllFailed_def orStr_def noPodSelected_def)
  show "map pod (mergeWithOwnership
        [freshAllFailed, freshAllFailed\<lparr>pod := Some ''Core-Pod1'', vertical := Some ''Core''\<rparr>]
        (mergeWithOwnership
          [freshAllFailed, freshAllFailed\<lparr>pod := Some ''Core-Pod1'', vertical := Some ''Core''\<rparr>] []))
       = [Some ''Core-Pod1'', Some ''Core-Pod1'']"
    by (simp add: mergeWithOwnership_def mergeRepo_def mapOfRepos_def mapGet_def mergeNew_def
          repoKey_def mergeExisting_def)
       (simp add: freshAllFailed_def orStr_def noPodSelected_def)
qed

text \<open>
  C5 (amended). When no two records that the enrichment of a run produced share a key,
  merging them against the result of a first merge gives the first merge again, record
  by record and in every field. And for every run, with or without shared keys: a
  second run that meets the same organizations and starts from the records persisted
  by the first run returns, and persists the same document as the first run did.
\<close>

theorem merge_idempotent:
  "(syncOrganizations orgs ([], []) = Some (githubData, orgStats) \<longrightarrow>
      distinct (map repoKey githubData) \<longrightarrow>
        mergeWithOwnership githubData (mergeWithOwnership githubData existingRepos)
          = mergeWithOwnership githubData existingRepos)
   \<and> (syncRepositories orgs' existingRepos' = Some out \<longrightarrow>
        syncRepositories orgs' (repositories out) = Some out)"
proof (intro conjI impI)
  assume F: "syncOrganizations orgs ([], []) = Some (githubData, orgStats)"
    and "distinct (map repoKey githubData)"
  moreover have "\<exists>e v. environmentType r = Some e \<and> vertical r = Some v"
    if "r \<in> set githubData" for r
  proof -
    from syncOrganizations_from_enrich [OF F _ that] obtain repo w
      where "enrichRepository repo w = Some (Some r)" by auto
    then show ?thesis by (rule enriched_shape)
  qed
  ultimately show "mergeWithOwnership githubData (mergeWithOwnership githubData existingRepos)
          = mergeWithOwnership githubData existingRepos"
    by (intro merge_twice_distinct)
next
  assume run: "syncRepositories orgs' existingRepos' = Some out"
  then obtain F sts where
    F: "syncOrganizations orgs' ([], []) = Some (F, sts)" and
    out: "out = \<lparr>repositories = uniqueRepos (mergeWithOwnership F existingRepos'),
                 totalRepos = length (uniqueRepos (mergeWithOwnership F existingRepos')),
                 totals = foldl addStats \<lparr>updated = 0, skipped = 0, errors = 0\<rparr> sts\<rparr>"
    by (auto simp: syncRepositories_def Let_def split: option.splits)
  have "\<exists>e v. environmentType r = Some e \<and> vertical r = Some v" if "r \<in> set F" for r
  proof -
    from syncOrganizations_from_enrich [OF F _ that] obtain repo w
      where "enrichRepository repo w = Some (Some r)" by auto
    then show ?thesis by (rule enriched_shape)
  qed
  then have "uniqueRepos (mergeWithOwnership F (mergeWithOwnership F existingRepos'))
      = uniqueRepos (mergeWithOwnership F existingRepos')"
    by (rule unique_merge_twice)
  with F out show "syncRepositories orgs' (repositories out) = Some out"
    by (simp add: syncRepositories_def Let_def mergeWithOwnership_uniqueRepos)
qed

theorem merge_idempotent_witness:
  "syncOrganizations [OrgListed [(exampleItem, failingWorld)]] ([], [])
      = Some ([freshAllFailed], [\<lparr>updated = 1, skipped = 0, errors = 0\<rparr>])
   \<and> distinct (map repoKey [freshAllFailed])
   \<and> mergeWithOwnership [freshAllFailed] (mergeWithOwnership [freshAllFailed] [priorRecord])
       = mergeWithOwnership [freshAllFailed] [priorRecord]
   \<and> syncRepositories [OrgListed [(exampleItem, failingWorld)]] [priorRecord]
     = Some \<lparr>repositories = [mergeExisting freshAllFailed priorRecord], totalRepos = 1,
             totals = \<lparr>updated = 1, skipped = 0, errors = 0\<rparr>\<rparr>
   \<and> syncRepositories [OrgListed [(exampleItem, failingWorld)]]
        [mergeExisting freshAllFailed priorRecord]
     = Some \<lparr>repositories = [mergeExisting freshAllFailed priorRecord], totalRepos = 1,
             totals = \<lparr>updated = 1, skipped = 0, errors = 0\<rparr>\<rparr>"
proof -
  have listed: "syncOrganizations [OrgListed [(exampleItem, failingWorld)]] ([], [])
      = Some ([freshAllFailed], [\<lparr>updated = 1, skipped = 0, errors = 0\<rparr>])"
    by (simp add: syncSingleOrganization_def enrich_failingWorld_plain)
  have run: "syncRepositories [OrgListed [(exampleItem, failingWorld)]] [priorRecord]
     = Some \<lparr>repositories = [mergeExisting freshAllFailed priorRecord], totalRepos = 1,
             totals = \<lparr>updated = 1, skipped = 0, errors = 0\<rparr>\<rparr>"
    unfolding syncRepositories_def listed
    by (simp add: merge_fresh_prior uniqueRepos_def mapOfRepos_single addStats_def)
  from merge_idempotent [of "[OrgListed [(exampleItem, failingWorld)]]" "[freshAllFailed]"
      "[\<lparr>updated = 1, skipped = 0, errors = 0\<rparr>]" "[priorRecord]"
      "[OrgListed [(exampleItem, failingWorld)]]" "[priorRecord]"
      "\<lparr>repositories = [mergeExisting freshAllFailed priorRecord], totalRepos = 1,
             totals = \<lparr>updated = 1, skipped = 0, errors = 0\<rparr>\<rparr>"] listed run
  show ?thesis by simp
qed


section \<open>Archived repositories\<close>

text \<open>
  C10. When the repository request resolves and marks the repository as archived,
  \<^verbatim>\<open>enrichRepository\<close> returns \<^verbatim>\<open>null\<close> and the loop counts the repository as skipped
  without adding a record. Every record that \<^verbatim>\<open>enrichRepository\<close> does return has the
  status \<^verbatim>\<open>active\<close> or \<^verbatim>\<open>deprecated\<close>, and so has every record of the document that a
  run persists.
\<close>

theorem archived_repository_skipped:
  "(details w = Inr d \<longrightarrow> d_archived d \<longrightarrow>
      enrichRepository repo w = Some None
      \<and> enrichAll ((repo, w) # rest) (enrichedRepos, st)
          = enrichAll rest (enrichedRepos, st\<lparr>skipped := skipped st + 1\<rparr>))
   \<and> (enrichRepository repo' w' = Some (Some r) \<longrightarrow>
        status r = Some ''active'' \<or> status r = Some ''deprecated'')
   \<and> (syncRepositories orgs existingRepos = Some out \<longrightarrow>
        (\<forall>r\<in>set (repositories out). status r = Some ''active'' \<or> status r = Some ''deprecated''))"
proof (intro conjI impI ballI)
  assume "details w = Inr d" "d_archived d"
  then show skip: "enrichRepository repo w = Some None"
    by (rule enrichRepository_archived)
  then show "enrichAll ((repo, w) # rest) (enrichedRepos, st)
          = enrichAll rest (enrichedRepos, st\<lparr>skipped := skipped st + 1\<rparr>)"
    by simp
next
  assume "enrichRepository repo' w' = Some (Some r)"
  then show "status r = Some ''active'' \<or> status r = Some ''deprecated''"
    by (rule enriched_shape)
next
  fix r
  assume run: "syncRepositories orgs existingRepos = Some out" and r: "r \<in> set (repositories out)"
  from run obtain F sts where
    F: "syncOrganizations orgs ([], []) = Some (F, sts)" and
    out: "repositories out = uniqueRepos (mergeWithOwnership F existingRepos)"
    by (auto simp: syncRepositories_def Let_def split: option.splits)
  from r out set_uniqueRepos have "r \<in> set (mergeWithOwnership F existingRepos)" by auto
  then obtain f where f: "f \<in> set F" and rf: "r = mergeRepo (mapOfRepos existingRepos) f"
    by (auto simp: mergeWithOwnership_def)
  from syncOrganizations_from_enrich [OF F _ f] obtain repo' w'
    where "enrichRepository repo' w' = Some (Some f)" by auto
  then have "status f = Some ''active'' \<or> status f = Some ''deprecated''"
    by (rule enriched_shape)
  with rf show "status r = Some ''active'' \<or> status r = Some ''deprecated''"
    by (auto simp: status_mergeRepo)
qed

theorem archived_repository_skipped_witness:
  "details (failingWorld\<lparr>details := Inr (exampleDetails\<lparr>d_archived := True\<rparr>)\<rparr>)
      = Inr (exampleDetails\<lparr>d_archived := True\<rparr>)
   \<and> d_archived (exampleDetails\<lparr>d_archived := True\<rparr>)
   \<and> enrichRepository \<lparr>owner_login = ''acme'', name = ''old''\<rparr>
        (failingWorld\<lparr>details := Inr (exampleDetails\<lparr>d_archived := True\<rparr>)\<rparr>) = Some None
   \<and> enrichRepository exampleItem failingWorld = Some (Some freshAllFailed)
   \<and> status freshAllFailed = Some ''active''
   \<and> syncRepositories
      [OrgListed [(\<lparr>owner_login = ''acme'', name = ''old''\<rparr>,
                   failingWorld\<lparr>details := Inr (exampleDetails\<lparr>d_archived := True\<rparr>)\<rparr>),
                  (exampleItem, failingWorld)]] [priorRecord]
     = Some \<lparr>repositories = [mergeExisting freshAllFailed priorRecord], totalRepos = 1,
             totals = \<lparr>updated = 1, skipped = 1, errors = 0\<rparr>\<rparr>
   \<and> status (mergeExisting freshAllFailed priorRecord) = Some ''active''"
proof -
  have hyps: "details (failingWorld\<lparr>details := Inr (exampleDetails\<lparr>d_archived := True\<rparr>)\<rparr>)
      = Inr (exampleDetails\<lparr>d_archived := True\<rparr>)"
    "d_archived (exampleDetails\<lparr>d_archived := True\<rparr>)"
    by simp_all
  note run = sync_archived_and_live
  note fresh = enrich_failingWorld_plain
  from archived_repository_skipped
      [of "failingWorld\<lparr>details := Inr (exampleDetails\<lparr>d_archived := True\<rparr>)\<rparr>"
      "exampleDetails\<lparr>d_archived := True\<rparr>" "\<lparr>owner_login = ''acme'', name = ''old''\<rparr>"
      "[]" "[]" "\<lparr>updated = 0, skipped = 0, errors = 0\<rparr>"
      exampleItem failingWorld freshAllFailed
      "[OrgListed [(\<lparr>owner_login = ''acme'', name = ''old''\<rparr>,
                   failingWorld\<lparr>details := Inr (exampleDetails\<lparr>d_archived := True\<rparr>)\<rparr>),
                  (exampleItem, failingWorld)]]" "[priorRecord]"
      "\<lparr>repositories = [mergeExisting freshAllFailed priorRecord], totalRepos = 1,
             totals = \<lparr>updated = 1, skipped = 1, errors = 0\<rparr>\<rparr>"] hyps run fresh
  have "enrichRepository \<lparr>owner_login = ''acme'', name = ''old''\<rparr>
        (failingWorld\<lparr>details := Inr (exampleDetails\<lparr>d_archived := True\<rparr>)\<rparr>) = Some None"
    and "status freshAllFailed = Some ''active'' \<or> status freshAllFailed = Some ''deprecated''"
    and "status (mergeExisting freshAllFailed priorRecord) = Some ''active''
       \<or> status (mergeExisting freshAllFailed priorRecord) = Some ''deprecated''"
    by simp_all
  moreover have "status freshAllFailed = Some ''active''"
    by (simp add: freshAllFailed_def)
  moreover have "status (mergeExisting freshAllFailed priorRecord) = Some ''active''"
    by (simp add: mergeExisting_def freshAllFailed_def orOpt_def)
  ultimately show ?thesis
    using hyps run fresh by simp
qed

end
